theory Spec2Isabelle
  imports Complex_Main
begin

section \<open>Python values and errors\<close>

text \<open>
  The payload of a Glances request is whatever \<^verbatim>\<open>response.json()\<close> returns: a JSON value.
  \<open>JNull\<close> is Python's \<^verbatim>\<open>None\<close>, which is also what \<^verbatim>\<open>make_glances_request\<close>
  returns when the request fails. A \<^verbatim>\<open>dict\<close> is an association list in insertion
  order (its keys are distinct). A \<^verbatim>\<open>str\<close> is the list of the bytes of its UTF-8
  encoding; where the source counts characters (slices, indexing, iteration) the model
  groups the bytes of a code point.

  A float is given by its exact value and by the text that Python's \<^verbatim>\<open>repr\<close> prints
  for it (a function of the runtime, taken as part of the datum). Arithmetic on numbers
  is exact: the model covers finite values in the range where binary64 division by a
  power of two and the conversion of an \<^verbatim>\<open>int\<close> are exact.
\<close>

datatype json =
    JNull
  | JBool bool
  | JInt int
  | JFloat rat string
  | JStr string
  | JList "json list"
  | JDict "(string \<times> json) list"

datatype py_error =
    ValueError string
  | KeyError
  | TypeError
  | AttributeError
  | IndexError

type_synonym 'a result = "py_error + 'a"

definition bind_e :: "'a result \<Rightarrow> ('a \<Rightarrow> 'b result) \<Rightarrow> 'b result" where
  "bind_e m f = (case m of Inl e \<Rightarrow> Inl e | Inr x \<Rightarrow> f x)"

text \<open>The fields of an f-string are evaluated from left to right; the first one that
  raises ends the evaluation.\<close>

fun render :: "string result list \<Rightarrow> string result" where
  "render [] = Inr []"
| "render (Inl e # rs) = Inl e"
| "render (Inr s # rs) = (case render rs of Inl e \<Rightarrow> Inl e | Inr t \<Rightarrow> Inr (s @ t))"

definition lit :: "string \<Rightarrow> string result" where
  "lit s = Inr s"


subsection \<open>Built-in operations\<close>

text \<open>\<^verbatim>\<open>bool(x)\<close>, the test of \<^verbatim>\<open>if not data\<close>.\<close>

fun truthy :: "json \<Rightarrow> bool" where
  "truthy JNull = False"
| "truthy (JBool b) = b"
| "truthy (JInt n) = (n \<noteq> 0)"
| "truthy (JFloat q r) = (q \<noteq> 0)"
| "truthy (JStr s) = (s \<noteq> [])"
| "truthy (JList xs) = (xs \<noteq> [])"
| "truthy (JDict kvs) = (kvs \<noteq> [])"

text \<open>Decimal text of an \<^verbatim>\<open>int\<close>; \<open>digit_char\<close> is applied to numbers below 10 only.\<close>

definition digit_char :: "nat \<Rightarrow> char" where
  "digit_char d = ''0123456789'' ! d"

fun string_of_nat :: "nat \<Rightarrow> string" where
  "string_of_nat n =
     (if n < 10 then [digit_char n] else string_of_nat (n div 10) @ [digit_char (n mod 10)])"

declare string_of_nat.simps [simp del]

definition string_of_int :: "int \<Rightarrow> string" where
  "string_of_int i = (if i < 0 then ''-'' @ string_of_nat (nat (- i)) else string_of_nat (nat i))"

text \<open>\<^verbatim>\<open>repr\<close> of a \<^verbatim>\<open>str\<close>: single quotes unless the text has a single quote and no
  double quote; backslash, the quote, and control characters are escaped. Bytes above
  0x7F (text beyond ASCII) are kept, as Python keeps printable characters.\<close>

definition hex_digit :: "nat \<Rightarrow> char" where
  "hex_digit d = ''0123456789abcdef'' ! d"

definition repr_char :: "char \<Rightarrow> char \<Rightarrow> string" where
  "repr_char q c =
     (if c = CHR 0x5C then [CHR 0x5C, CHR 0x5C]
      else if c = q then [CHR 0x5C, q]
      else if c = CHR 0x0A then [CHR 0x5C, CHR ''n'']
      else if c = CHR 0x0D then [CHR 0x5C, CHR ''r'']
      else if c = CHR 0x09 then [CHR 0x5C, CHR ''t'']
      else if of_char c < (32::nat) \<or> of_char c = (127::nat)
        then [CHR 0x5C, CHR ''x'', hex_digit (of_char c div 16), hex_digit (of_char c mod 16)]
      else [c])"

definition repr_str :: "string \<Rightarrow> string" where
  "repr_str s =
     (let q = (if CHR 0x27 \<in> set s \<and> CHR 0x22 \<notin> set s then CHR 0x22 else CHR 0x27)
      in [q] @ concat (map (repr_char q) s) @ [q])"

fun join :: "string \<Rightarrow> string list \<Rightarrow> string" where
  "join sep [] = []"
| "join sep [s] = s"
| "join sep (s # t # ss) = s @ sep @ join sep (t # ss)"

primrec py_repr :: "json \<Rightarrow> string" where
  "py_repr JNull = ''None''"
| "py_repr (JBool b) = (if b then ''True'' else ''False'')"
| "py_repr (JInt n) = string_of_int n"
| "py_repr (JFloat q r) = r"
| "py_repr (JStr s) = repr_str s"
| "py_repr (JList xs) = ''['' @ join '', '' (map py_repr xs) @ '']''"
| "py_repr (JDict kvs) =
     ''{'' @ join '', '' (map (\<lambda>(k, r). repr_str k @ '': '' @ r) (map (map_prod id py_repr) kvs)) @ ''}''"

text \<open>\<^verbatim>\<open>str(x)\<close>, what an f-string field without a format prints.\<close>

definition py_str :: "json \<Rightarrow> string" where
  "py_str v = (case v of JStr s \<Rightarrow> s | _ \<Rightarrow> py_repr v)"

text \<open>\<^verbatim>\<open>x.get(key, default)\<close>: only a \<^verbatim>\<open>dict\<close> has the method.\<close>

definition dict_get :: "(string \<times> json) list \<Rightarrow> string \<Rightarrow> json \<Rightarrow> json" where
  "dict_get kvs k dflt = (case map_of kvs k of None \<Rightarrow> dflt | Some v \<Rightarrow> v)"

definition py_get :: "json \<Rightarrow> string \<Rightarrow> json \<Rightarrow> json result" where
  "py_get d k dflt =
     (case d of
        JDict kvs \<Rightarrow> Inr (dict_get kvs k dflt)
      | _ \<Rightarrow> Inl AttributeError)"

definition fld :: "json result \<Rightarrow> string result" where
  "fld r = (case r of Inl e \<Rightarrow> Inl e | Inr v \<Rightarrow> Inr (py_str v))"

text \<open>The value of a number in arithmetic (\<^verbatim>\<open>bool\<close> is a subtype of \<^verbatim>\<open>int\<close>);
  any other operand of \<^verbatim>\<open>/\<close> or \<^verbatim>\<open><\<close> with a number raises TypeError.\<close>

definition num_of :: "json \<Rightarrow> rat result" where
  "num_of v =
     (case v of
        JInt n \<Rightarrow> Inr (of_int n)
      | JFloat q r \<Rightarrow> Inr q
      | JBool b \<Rightarrow> Inr (if b then 1 else 0)
      | _ \<Rightarrow> Inl TypeError)"

text \<open>The format \<^verbatim>\<open>:.2f\<close>: two decimals, the exact value rounded half to even, the
  sign kept.\<close>

definition round_half_even :: "rat \<Rightarrow> int" where
  "round_half_even q =
     (let f = \<lfloor>q\<rfloor>; r = q - of_int f
      in if r < 1 / 2 then f else if 1 / 2 < r then f + 1 else if even f then f else f + 1)"

definition fmt2f :: "rat \<Rightarrow> string" where
  "fmt2f q =
     (let n = nat (round_half_even (\<bar>q\<bar> * 100))
      in (if q < 0 then ''-'' else []) @ string_of_nat (n div 100) @ ''.''
         @ [digit_char (n div 10 mod 10), digit_char (n mod 10)])"

text \<open>\<^verbatim>\<open>f"{x / 1024 / 1024:.2f}"\<close> and its variants: the number divided by each
  divisor in turn.\<close>

definition fld_div2f :: "json result \<Rightarrow> rat list \<Rightarrow> string result" where
  "fld_div2f r ds = bind_e r (\<lambda>v. bind_e (num_of v) (\<lambda>q. Inr (fmt2f (foldl (/) q ds))))"

definition err_format_code :: string where
  \<comment> \<open>Unknown format code <APOS>f<APOS> for object of type <APOS>str<APOS>\<close>
  "err_format_code =
     ''Unknown format code '' @ [CHR 0x27] @ ''f'' @ [CHR 0x27] @ '' for object of type '' @
     [CHR 0x27] @ ''str'' @ [CHR 0x27]"

text \<open>\<^verbatim>\<open>f"{x:.2f}"\<close> on a value as it comes: a \<^verbatim>\<open>str\<close> rejects the format code with
  ValueError, \<^verbatim>\<open>None\<close> and the containers reject any format with TypeError.\<close>

definition fld_2f :: "json result \<Rightarrow> string result" where
  "fld_2f r =
     bind_e r (\<lambda>v. case v of
        JStr s \<Rightarrow> Inl (ValueError err_format_code)
      | _ \<Rightarrow> bind_e (num_of v) (\<lambda>q. Inr (fmt2f q)))"

subsection \<open>Sequences\<close>

text \<open>The characters of a \<^verbatim>\<open>str\<close>: a leading byte with the continuation bytes
  (0x80 to 0xBF) that follow it.\<close>

definition is_cont :: "char \<Rightarrow> bool" where
  "is_cont c = ((128::nat) \<le> of_char c \<and> of_char c < (192::nat))"

function code_points :: "string \<Rightarrow> string list" where
  "code_points [] = []"
| "code_points (c # cs) = (c # takeWhile is_cont cs) # code_points (dropWhile is_cont cs)"
  by pat_completeness auto
termination
  by (relation "measure length") (auto simp: le_imp_less_Suc length_dropWhile_le)

text \<open>\<^verbatim>\<open>for x in data\<close>: a list gives its elements, a dict its keys, a str its
  characters; nothing else is iterable.\<close>

definition py_iter :: "json \<Rightarrow> json list result" where
  "py_iter v =
     (case v of
        JList xs \<Rightarrow> Inr xs
      | JDict kvs \<Rightarrow> Inr (map (\<lambda>kv. JStr (fst kv)) kvs)
      | JStr s \<Rightarrow> Inr (map JStr (code_points s))
      | _ \<Rightarrow> Inl TypeError)"

text \<open>\<^verbatim>\<open>data.items()\<close>: only a dict has the method.\<close>

definition py_items :: "json \<Rightarrow> (string \<times> json) list result" where
  "py_items v = (case v of JDict kvs \<Rightarrow> Inr kvs | _ \<Rightarrow> Inl AttributeError)"

text \<open>\<^verbatim>\<open>x[:n]\<close>: a list or a str is cut; a dict takes the slice for a key and raises
  (TypeError up to Python 3.11, where a slice is unhashable, KeyError from 3.12); the
  other values are not subscriptable.\<close>

definition py_slice :: "nat \<Rightarrow> json \<Rightarrow> json result" where
  "py_slice n v =
     (case v of
        JList xs \<Rightarrow> Inr (JList (take n xs))
      | JStr s \<Rightarrow> Inr (JStr (concat (take n (code_points s))))
      | _ \<Rightarrow> Inl TypeError)"

text \<open>\<^verbatim>\<open>x[0]\<close>: IndexError on an empty list or str, KeyError on a dict (its keys are
  strings), TypeError on the other values.\<close>

definition py_index0 :: "json \<Rightarrow> json result" where
  "py_index0 v =
     (case v of
        JList xs \<Rightarrow> (case xs of [] \<Rightarrow> Inl IndexError | x # _ \<Rightarrow> Inr x)
      | JStr s \<Rightarrow> (case code_points s of [] \<Rightarrow> Inl IndexError | c # _ \<Rightarrow> Inr (JStr c))
      | JDict kvs \<Rightarrow> Inl KeyError
      | _ \<Rightarrow> Inl TypeError)"

text \<open>\<^verbatim>\<open>', '.join(data)\<close>: every item must be a str.\<close>

fun str_items :: "json list \<Rightarrow> string list result" where
  "str_items [] = Inr []"
| "str_items (JStr s # vs) = (case str_items vs of Inl e \<Rightarrow> Inl e | Inr ss \<Rightarrow> Inr (s # ss))"
| "str_items (v # vs) = Inl TypeError"

definition py_join :: "string \<Rightarrow> json \<Rightarrow> string result" where
  "py_join sep v = bind_e (py_iter v) (\<lambda>xs. bind_e (str_items xs) (\<lambda>ss. Inr (join sep ss)))"

text \<open>\<^verbatim>\<open>x == -1\<close> on a payload value.\<close>

definition eq_minus_one :: "json \<Rightarrow> bool" where
  "eq_minus_one v = (case v of JInt n \<Rightarrow> n = - 1 | JFloat q r \<Rightarrow> q = - 1 | _ \<Rightarrow> False)"

text \<open>\<^verbatim>\<open>pat in s\<close> on two strings.\<close>

fun has_substring :: "string \<Rightarrow> string \<Rightarrow> bool" where
  "has_substring pat [] = (pat = [])"
| "has_substring pat (c # cs) = (take (length pat) (c # cs) = pat \<or> has_substring pat cs)"

subsection \<open>Conversion to int\<close>

text \<open>
  \<^verbatim>\<open>int(x)\<close>: a float is truncated towards zero; a str is stripped of white space and
  read as an optional sign and decimal digits, single underscores allowed between
  digits, and raises ValueError otherwise; \<^verbatim>\<open>None\<close> and the containers raise
  TypeError. The model reads ASCII digits and white space only.
\<close>

definition is_space :: "char \<Rightarrow> bool" where
  "is_space c = (c \<in> set [CHR 0x09, CHR 0x0A, CHR 0x0B, CHR 0x0C, CHR 0x0D,
                          CHR 0x1C, CHR 0x1D, CHR 0x1E, CHR 0x1F, CHR 0x20])"

definition is_digit :: "char \<Rightarrow> bool" where
  "is_digit c = ((48::nat) \<le> of_char c \<and> of_char c \<le> (57::nat))"

definition strip :: "string \<Rightarrow> string" where
  "strip s = rev (dropWhile is_space (rev (dropWhile is_space s)))"

definition valid_int_body :: "string \<Rightarrow> bool" where
  "valid_int_body b =
     (case b of [] \<Rightarrow> False
      | c # cs \<Rightarrow> is_digit c \<and> is_digit (last b)
          \<and> list_all (\<lambda>x. is_digit x \<or> x = CHR ''_'') b \<and> \<not> has_substring ''__'' b)"

definition digits_value :: "string \<Rightarrow> nat" where
  "digits_value b = foldl (\<lambda>acc c. 10 * acc + (of_char c - 48)) 0 (filter is_digit b)"

definition parse_int :: "string \<Rightarrow> int option" where
  "parse_int s =
     (let t = strip s;
          neg = (case t of [] \<Rightarrow> False | c # _ \<Rightarrow> c = CHR ''-'');
          b = (case t of [] \<Rightarrow> [] | c # cs \<Rightarrow> if c = CHR ''-'' \<or> c = CHR ''+'' then cs else t)
      in if valid_int_body b
         then Some (if neg then - int (digits_value b) else int (digits_value b))
         else None)"

definition err_int_literal :: string where
  \<comment> \<open>invalid literal for int() with base 10: \<close>
  "err_int_literal =
     ''invalid literal for int() with base 10: ''"

definition py_int :: "json \<Rightarrow> int result" where
  "py_int v =
     (case v of
        JInt n \<Rightarrow> Inr n
      | JBool b \<Rightarrow> Inr (if b then 1 else 0)
      | JFloat q r \<Rightarrow> Inr (if q < 0 then - \<lfloor>- q\<rfloor> else \<lfloor>q\<rfloor>)
      | JStr s \<Rightarrow> (case parse_int s of
            None \<Rightarrow> Inl (ValueError (err_int_literal @ repr_str s))
          | Some n \<Rightarrow> Inr n)
      | _ \<Rightarrow> Inl TypeError)"

section \<open>Server registry\<close>

text \<open>
  \<^verbatim>\<open>SERVERS\<close> is the dict loaded from the configuration file, from a server id to
  its \<open>name\<close>, \<open>url\<close> and \<open>description\<close>; \<^verbatim>\<open>DEFAULT_SERVER\<close> is the dict with
  the keys \<open>id\<close> and \<open>env\<close>. Both are module globals: the functions that change
  them return the new globals.
\<close>

record server =
  srv_name :: string
  srv_url :: string
  srv_description :: string

record globals =
  SERVERS :: "(string \<times> server) list"
  default_id :: string
  default_env :: string

subsection \<open>Texts of the registry operations\<close>

definition err_no_server :: string where
  \<comment> \<open><U+672A><U+627E><U+5230><U+670D><U+52A1><U+5668><U+914D><U+7F6E>: \<close>
  "err_no_server =
     [CHR 0xE6, CHR 0x9C, CHR 0xAA, CHR 0xE6, CHR 0x89, CHR 0xBE, CHR 0xE5, CHR 0x88,
     CHR 0xB0, CHR 0xE6, CHR 0x9C, CHR 0x8D, CHR 0xE5, CHR 0x8A, CHR 0xA1, CHR 0xE5,
     CHR 0x99, CHR 0xA8, CHR 0xE9, CHR 0x85, CHR 0x8D, CHR 0xE7, CHR 0xBD, CHR 0xAE] @
     '': ''"

definition txt_production :: string where
  \<comment> \<open><U+751F><U+4EA7>\<close>
  "txt_production =
     [CHR 0xE7, CHR 0x94, CHR 0x9F, CHR 0xE4, CHR 0xBA, CHR 0xA7]"

definition txt_default_set :: string where
  \<comment> \<open><U+5DF2><U+5C06><U+9ED8><U+8BA4><U+670D><U+52A1><U+5668><U+8BBE><U+7F6E><U+4E3A>: \<close>
  "txt_default_set =
     [CHR 0xE5, CHR 0xB7, CHR 0xB2, CHR 0xE5, CHR 0xB0, CHR 0x86, CHR 0xE9, CHR 0xBB,
     CHR 0x98, CHR 0xE8, CHR 0xAE, CHR 0xA4, CHR 0xE6, CHR 0x9C, CHR 0x8D, CHR 0xE5,
     CHR 0x8A, CHR 0xA1, CHR 0xE5, CHR 0x99, CHR 0xA8, CHR 0xE8, CHR 0xAE, CHR 0xBE,
     CHR 0xE7, CHR 0xBD, CHR 0xAE, CHR 0xE4, CHR 0xB8, CHR 0xBA] @ '': ''"

definition txt_default_head :: string where
  \<comment> \<open><LF><U+5F53><U+524D><U+9ED8><U+8BA4><U+670D><U+52A1><U+5668>:<LF>ID: \<close>
  "txt_default_head =
     [CHR 0x0A, CHR 0xE5, CHR 0xBD, CHR 0x93, CHR 0xE5, CHR 0x89, CHR 0x8D, CHR 0xE9,
     CHR 0xBB, CHR 0x98, CHR 0xE8, CHR 0xAE, CHR 0xA4, CHR 0xE6, CHR 0x9C, CHR 0x8D,
     CHR 0xE5, CHR 0x8A, CHR 0xA1, CHR 0xE5, CHR 0x99, CHR 0xA8] @ '':'' @ [CHR 0x0A] @
     ''ID: ''"

definition txt_lbl_name :: string where
  \<comment> \<open><LF><U+540D><U+79F0>: \<close>
  "txt_lbl_name =
     [CHR 0x0A, CHR 0xE5, CHR 0x90, CHR 0x8D, CHR 0xE7, CHR 0xA7, CHR 0xB0] @ '': ''"

definition txt_lbl_env :: string where
  \<comment> \<open><LF><U+73AF><U+5883>: \<close>
  "txt_lbl_env =
     [CHR 0x0A, CHR 0xE7, CHR 0x8E, CHR 0xAF, CHR 0xE5, CHR 0xA2, CHR 0x83] @ '': ''"

definition txt_env_prod :: string where
  \<comment> \<open><U+751F><U+4EA7><U+73AF><U+5883>\<close>
  "txt_env_prod =
     [CHR 0xE7, CHR 0x94, CHR 0x9F, CHR 0xE4, CHR 0xBA, CHR 0xA7, CHR 0xE7, CHR 0x8E,
     CHR 0xAF, CHR 0xE5, CHR 0xA2, CHR 0x83]"

definition txt_env_test :: string where
  \<comment> \<open><U+6D4B><U+8BD5><U+73AF><U+5883>\<close>
  "txt_env_test =
     [CHR 0xE6, CHR 0xB5, CHR 0x8B, CHR 0xE8, CHR 0xAF, CHR 0x95, CHR 0xE7, CHR 0x8E,
     CHR 0xAF, CHR 0xE5, CHR 0xA2, CHR 0x83]"

definition txt_lbl_desc :: string where
  \<comment> \<open><LF><U+63CF><U+8FF0>: \<close>
  "txt_lbl_desc =
     [CHR 0x0A, CHR 0xE6, CHR 0x8F, CHR 0x8F, CHR 0xE8, CHR 0xBF, CHR 0xB0] @ '': ''"

definition txt_lbl_addr :: string where
  \<comment> \<open><LF><U+5730><U+5740>: \<close>
  "txt_lbl_addr =
     [CHR 0x0A, CHR 0xE5, CHR 0x9C, CHR 0xB0, CHR 0xE5, CHR 0x9D, CHR 0x80] @ '': ''"

definition txt_nl :: string where
  \<comment> \<open><LF>\<close>
  "txt_nl =
     [CHR 0x0A]"

definition txt_list_head :: string where
  \<comment> \<open><U+914D><U+7F6E><U+7684><U+670D><U+52A1><U+5668><U+5217><U+8868>:<LF>\<close>
  "txt_list_head =
     [CHR 0xE9, CHR 0x85, CHR 0x8D, CHR 0xE7, CHR 0xBD, CHR 0xAE, CHR 0xE7, CHR 0x9A,
     CHR 0x84, CHR 0xE6, CHR 0x9C, CHR 0x8D, CHR 0xE5, CHR 0x8A, CHR 0xA1, CHR 0xE5,
     CHR 0x99, CHR 0xA8, CHR 0xE5, CHR 0x88, CHR 0x97, CHR 0xE8, CHR 0xA1, CHR 0xA8] @
     '':'' @ [CHR 0x0A]"

definition txt_lbl_id :: string where
  \<comment> \<open><LF>ID: \<close>
  "txt_lbl_id =
     [CHR 0x0A] @ ''ID: ''"

definition txt_add_dup_a :: string where
  \<comment> \<open><U+9519><U+8BEF><U+FF1A><U+670D><U+52A1><U+5668>ID <APOS>\<close>
  "txt_add_dup_a =
     [CHR 0xE9, CHR 0x94, CHR 0x99, CHR 0xE8, CHR 0xAF, CHR 0xAF, CHR 0xEF, CHR 0xBC,
     CHR 0x9A, CHR 0xE6, CHR 0x9C, CHR 0x8D, CHR 0xE5, CHR 0x8A, CHR 0xA1, CHR 0xE5,
     CHR 0x99, CHR 0xA8] @ ''ID '' @ [CHR 0x27]"

definition txt_add_dup_b :: string where
  \<comment> \<open><APOS> <U+5DF2><U+5B58><U+5728>\<close>
  "txt_add_dup_b =
     [CHR 0x27] @ '' '' @ [CHR 0xE5, CHR 0xB7, CHR 0xB2, CHR 0xE5, CHR 0xAD, CHR 0x98,
     CHR 0xE5, CHR 0x9C, CHR 0xA8]"

definition txt_add_ok :: string where
  \<comment> \<open><U+6210><U+529F><U+6DFB><U+52A0><U+670D><U+52A1><U+5668> <APOS>\<close>
  "txt_add_ok =
     [CHR 0xE6, CHR 0x88, CHR 0x90, CHR 0xE5, CHR 0x8A, CHR 0x9F, CHR 0xE6, CHR 0xB7,
     CHR 0xBB, CHR 0xE5, CHR 0x8A, CHR 0xA0, CHR 0xE6, CHR 0x9C, CHR 0x8D, CHR 0xE5,
     CHR 0x8A, CHR 0xA1, CHR 0xE5, CHR 0x99, CHR 0xA8] @ '' '' @ [CHR 0x27]"

definition txt_apos :: string where
  \<comment> \<open><APOS>\<close>
  "txt_apos =
     [CHR 0x27]"

definition txt_rm_unknown :: string where
  \<comment> \<open><U+9519><U+8BEF><U+FF1A><U+672A><U+627E><U+5230><U+670D><U+52A1><U+5668>ID <APOS>\<close>
  "txt_rm_unknown =
     [CHR 0xE9, CHR 0x94, CHR 0x99, CHR 0xE8, CHR 0xAF, CHR 0xAF, CHR 0xEF, CHR 0xBC,
     CHR 0x9A, CHR 0xE6, CHR 0x9C, CHR 0xAA, CHR 0xE6, CHR 0x89, CHR 0xBE, CHR 0xE5,
     CHR 0x88, CHR 0xB0, CHR 0xE6, CHR 0x9C, CHR 0x8D, CHR 0xE5, CHR 0x8A, CHR 0xA1,
     CHR 0xE5, CHR 0x99, CHR 0xA8] @ ''ID '' @ [CHR 0x27]"

definition txt_rm_ok :: string where
  \<comment> \<open><U+6210><U+529F><U+5220><U+9664><U+670D><U+52A1><U+5668> <APOS>\<close>
  "txt_rm_ok =
     [CHR 0xE6, CHR 0x88, CHR 0x90, CHR 0xE5, CHR 0x8A, CHR 0x9F, CHR 0xE5, CHR 0x88,
     CHR 0xA0, CHR 0xE9, CHR 0x99, CHR 0xA4, CHR 0xE6, CHR 0x9C, CHR 0x8D, CHR 0xE5,
     CHR 0x8A, CHR 0xA1, CHR 0xE5, CHR 0x99, CHR 0xA8] @ '' '' @ [CHR 0x27]"

subsection \<open>Operations\<close>

text \<open>The globals at start-up, for the configuration \<open>cfg\<close>.\<close>

definition initial_globals :: "(string \<times> server) list \<Rightarrow> globals" where
  "initial_globals cfg = \<lparr>SERVERS = cfg, default_id = ''server1'', default_env = ''test''\<rparr>"

definition get_default_server_id :: "globals \<Rightarrow> string" where
  "get_default_server_id g = default_id g"

definition set_default_server_id :: "globals \<Rightarrow> string \<Rightarrow> globals result" where
  "set_default_server_id g server_id =
     (case map_of (SERVERS g) server_id of
        None \<Rightarrow> Inl (ValueError (err_no_server @ server_id))
      | Some srv \<Rightarrow>
          Inr (g\<lparr>default_id := server_id,
                 default_env := (if has_substring txt_production (srv_description srv)
                                 then ''prod'' else ''test'')\<rparr>))"

definition get_server_url :: "globals \<Rightarrow> string option \<Rightarrow> string result" where
  "get_server_url g server_id =
     (let sid = (case server_id of None \<Rightarrow> get_default_server_id g | Some s \<Rightarrow> s)
      in case map_of (SERVERS g) sid of
           None \<Rightarrow> Inl (ValueError (err_no_server @ sid))
         | Some srv \<Rightarrow> Inr (srv_url srv))"

text \<open>\<^verbatim>\<open>SERVERS[server_id]\<close> with the handler's argument, which may be \<^verbatim>\<open>None\<close>:
  \<^verbatim>\<open>None\<close> is no key of the dict.\<close>

definition servers_item :: "globals \<Rightarrow> string option \<Rightarrow> server result" where
  "servers_item g server_id =
     (case server_id of
        None \<Rightarrow> Inl KeyError
      | Some s \<Rightarrow> (case map_of (SERVERS g) s of None \<Rightarrow> Inl KeyError | Some srv \<Rightarrow> Inr srv))"

text \<open>\<^verbatim>\<open>f"{server_id}"\<close> with the handler's argument.\<close>

definition str_opt :: "string option \<Rightarrow> string" where
  "str_opt server_id = (case server_id of None \<Rightarrow> ''None'' | Some s \<Rightarrow> s)"

text \<open>\<^verbatim>\<open>try: ... except ValueError as e: return str(e)\<close>.\<close>

definition catch_ValueError :: "string result \<Rightarrow> string result" where
  "catch_ValueError r = (case r of Inl (ValueError m) \<Rightarrow> Inr m | _ \<Rightarrow> r)"

section \<open>HTTP client adapter\<close>

text \<open>
  The remote agents are a function \<open>http_get\<close> from the URL to the parsed JSON body,
  or to \<open>None\<close> when the request raises (transport error, status, malformed body); the
  adapter turns the exception into \<^verbatim>\<open>None\<close>. \<open>http_post\<close> tells whether the POST went
  through. Only the resolution of the server id raises to the caller.
\<close>

text \<open>The \<^verbatim>\<open>try\<close> block of \<^verbatim>\<open>make_glances_request\<close>: the body, or \<^verbatim>\<open>None\<close> on any
  exception.\<close>

definition get_json :: "(string \<Rightarrow> json option) \<Rightarrow> string \<Rightarrow> json" where
  "get_json http_get url = (case http_get url of None \<Rightarrow> JNull | Some v \<Rightarrow> v)"

definition make_glances_request ::
  "globals \<Rightarrow> (string \<Rightarrow> json option) \<Rightarrow> string \<Rightarrow> string option \<Rightarrow> json result" where
  "make_glances_request g http_get endpoint server_id =
     (let sid = (case server_id of None \<Rightarrow> get_default_server_id g | Some s \<Rightarrow> s)
      in bind_e (get_server_url g (Some sid))
           (\<lambda>base. Inr (get_json http_get (base @ ''/'' @ endpoint))))"

definition make_glances_post_request ::
  "globals \<Rightarrow> (string \<Rightarrow> bool) \<Rightarrow> string \<Rightarrow> string option \<Rightarrow> bool result" where
  "make_glances_post_request g http_post endpoint server_id =
     (let sid = (case server_id of None \<Rightarrow> get_default_server_id g | Some s \<Rightarrow> s)
      in bind_e (get_server_url g (Some sid)) (\<lambda>base. Inr (http_post (base @ ''/'' @ endpoint))))"

section \<open>Registry operations\<close>

definition set_default_server :: "globals \<Rightarrow> string \<Rightarrow> string result \<times> globals" where
  "set_default_server g server_id =
     (case set_default_server_id g server_id of
        Inl (ValueError m) \<Rightarrow> (Inr m, g)
      | Inl e \<Rightarrow> (Inl e, g)
      | Inr g' \<Rightarrow>
          (case map_of (SERVERS g') server_id of
             None \<Rightarrow> (Inl KeyError, g')
           | Some srv \<Rightarrow>
               (Inr (txt_default_set @ srv_name srv @ '' ('' @ srv_description srv @ '')''), g')))"

definition get_default_server :: "globals \<Rightarrow> string result" where
  "get_default_server g =
     (let server_id = get_default_server_id g
      in case map_of (SERVERS g) server_id of
           None \<Rightarrow> Inl KeyError
         | Some srv \<Rightarrow>
             Inr (txt_default_head @ server_id
                  @ txt_lbl_name @ srv_name srv
                  @ txt_lbl_env
                  @ (if default_env g = ''prod'' then txt_env_prod else txt_env_test)
                  @ txt_lbl_desc @ srv_description srv
                  @ txt_lbl_addr @ srv_url srv @ txt_nl))"

definition list_servers :: "globals \<Rightarrow> string" where
  "list_servers g =
     txt_list_head
     @ concat (map (\<lambda>(server_id, info).
         txt_lbl_id @ server_id @ txt_lbl_name @ srv_name info
         @ txt_lbl_addr @ srv_url info @ txt_lbl_desc @ srv_description info @ txt_nl) (SERVERS g))"

definition add_server ::
  "globals \<Rightarrow> string \<Rightarrow> string \<Rightarrow> string \<Rightarrow> string \<Rightarrow> string \<times> globals" where
  "add_server g server_id name url description =
     (if map_of (SERVERS g) server_id \<noteq> None
      then (txt_add_dup_a @ server_id @ txt_add_dup_b, g)
      else (txt_add_ok @ name @ txt_apos,
            g\<lparr>SERVERS := SERVERS g @ [(server_id,
                 \<lparr>srv_name = name, srv_url = url, srv_description = description\<rparr>)]\<rparr>))"

definition remove_server :: "globals \<Rightarrow> string \<Rightarrow> string \<times> globals" where
  "remove_server g server_id =
     (if map_of (SERVERS g) server_id = None
      then (txt_rm_unknown @ server_id @ txt_apos, g)
      else (txt_rm_ok @ server_id @ txt_apos,
            g\<lparr>SERVERS := filter (\<lambda>kv. fst kv \<noteq> server_id) (SERVERS g)\<rparr>))"

section \<open>Formatters\<close>

subsection \<open>Texts of the report templates\<close>

definition sys_t0 :: string where
  \<comment> \<open><LF><U+7CFB><U+7EDF><U+4FE1><U+606F>:<LF><U+4E3B><U+673A><U+540D>: \<close>
  "sys_t0 =
     [CHR 0x0A, CHR 0xE7, CHR 0xB3, CHR 0xBB, CHR 0xE7, CHR 0xBB, CHR 0x9F, CHR 0xE4,
     CHR 0xBF, CHR 0xA1, CHR 0xE6, CHR 0x81, CHR 0xAF] @ '':'' @ [CHR 0x0A, CHR 0xE4,
     CHR 0xB8, CHR 0xBB, CHR 0xE6, CHR 0x9C, CHR 0xBA, CHR 0xE5, CHR 0x90, CHR 0x8D] @
     '': ''"

definition sys_t1 :: string where
  \<comment> \<open><LF><U+64CD><U+4F5C><U+7CFB><U+7EDF>: \<close>
  "sys_t1 =
     [CHR 0x0A, CHR 0xE6, CHR 0x93, CHR 0x8D, CHR 0xE4, CHR 0xBD, CHR 0x9C, CHR 0xE7,
     CHR 0xB3, CHR 0xBB, CHR 0xE7, CHR 0xBB, CHR 0x9F] @ '': ''"

definition txt_cpu_usage :: string where
  \<comment> \<open><LF>CPU<U+4F7F><U+7528><U+7387>: \<close>
  "txt_cpu_usage =
     [CHR 0x0A] @ ''CPU'' @ [CHR 0xE4, CHR 0xBD, CHR 0xBF, CHR 0xE7, CHR 0x94, CHR 0xA8,
     CHR 0xE7, CHR 0x8E, CHR 0x87] @ '': ''"

definition txt_pct_mem_usage :: string where
  \<comment> \<open>%<LF><U+5185><U+5B58><U+4F7F><U+7528><U+7387>: \<close>
  "txt_pct_mem_usage =
     ''%'' @ [CHR 0x0A, CHR 0xE5, CHR 0x86, CHR 0x85, CHR 0xE5, CHR 0xAD, CHR 0x98, CHR 0xE4,
     CHR 0xBD, CHR 0xBF, CHR 0xE7, CHR 0x94, CHR 0xA8, CHR 0xE7, CHR 0x8E, CHR 0x87] @
     '': ''"

definition sys_t4 :: string where
  \<comment> \<open>%<LF><U+78C1><U+76D8><U+4F7F><U+7528><U+7387>: \<close>
  "sys_t4 =
     ''%'' @ [CHR 0x0A, CHR 0xE7, CHR 0xA3, CHR 0x81, CHR 0xE7, CHR 0x9B, CHR 0x98, CHR 0xE4,
     CHR 0xBD, CHR 0xBF, CHR 0xE7, CHR 0x94, CHR 0xA8, CHR 0xE7, CHR 0x8E, CHR 0x87] @
     '': ''"

definition txt_pct_nl :: string where
  \<comment> \<open>%<LF>\<close>
  "txt_pct_nl =
     ''%'' @ [CHR 0x0A]"

definition proc_head :: string where
  \<comment> \<open><U+8FDB><U+7A0B><U+4FE1><U+606F> (<U+524D>5<U+4E2A>):<LF>\<close>
  "proc_head =
     [CHR 0xE8, CHR 0xBF, CHR 0x9B, CHR 0xE7, CHR 0xA8, CHR 0x8B, CHR 0xE4, CHR 0xBF,
     CHR 0xA1, CHR 0xE6, CHR 0x81, CHR 0xAF] @ '' ('' @ [CHR 0xE5, CHR 0x89, CHR 0x8D] @
     ''5'' @ [CHR 0xE4, CHR 0xB8, CHR 0xAA] @ ''):'' @ [CHR 0x0A]"

definition proc_t0 :: string where
  \<comment> \<open>)<LF>   CPU: \<close>
  "proc_t0 =
     '')'' @ [CHR 0x0A] @ ''   CPU: ''"

definition proc_t1 :: string where
  \<comment> \<open>%<LF>   <U+5185><U+5B58>: \<close>
  "proc_t1 =
     ''%'' @ [CHR 0x0A] @ ''   '' @ [CHR 0xE5, CHR 0x86, CHR 0x85, CHR 0xE5, CHR 0xAD,
     CHR 0x98] @ '': ''"

definition alert_none :: string where
  \<comment> \<open><U+5F53><U+524D><U+6CA1><U+6709><U+544A><U+8B66><U+4FE1><U+606F>\<close>
  "alert_none =
     [CHR 0xE5, CHR 0xBD, CHR 0x93, CHR 0xE5, CHR 0x89, CHR 0x8D, CHR 0xE6, CHR 0xB2,
     CHR 0xA1, CHR 0xE6, CHR 0x9C, CHR 0x89, CHR 0xE5, CHR 0x91, CHR 0x8A, CHR 0xE8,
     CHR 0xAD, CHR 0xA6, CHR 0xE4, CHR 0xBF, CHR 0xA1, CHR 0xE6, CHR 0x81, CHR 0xAF]"

definition alert_head :: string where
  \<comment> \<open><U+544A><U+8B66><U+4FE1><U+606F>:<LF>\<close>
  "alert_head =
     [CHR 0xE5, CHR 0x91, CHR 0x8A, CHR 0xE8, CHR 0xAD, CHR 0xA6, CHR 0xE4, CHR 0xBF,
     CHR 0xA1, CHR 0xE6, CHR 0x81, CHR 0xAF] @ '':'' @ [CHR 0x0A]"

definition alert_t0 :: string where
  \<comment> \<open><LF><U+7C7B><U+578B>: \<close>
  "alert_t0 =
     [CHR 0x0A, CHR 0xE7, CHR 0xB1, CHR 0xBB, CHR 0xE5, CHR 0x9E, CHR 0x8B] @ '': ''"

definition alert_t1 :: string where
  \<comment> \<open><LF><U+72B6><U+6001>: \<close>
  "alert_t1 =
     [CHR 0x0A, CHR 0xE7, CHR 0x8A, CHR 0xB6, CHR 0xE6, CHR 0x80, CHR 0x81] @ '': ''"

definition alert_t2 :: string where
  \<comment> \<open><LF><U+5F00><U+59CB><U+65F6><U+95F4>: \<close>
  "alert_t2 =
     [CHR 0x0A, CHR 0xE5, CHR 0xBC, CHR 0x80, CHR 0xE5, CHR 0xA7, CHR 0x8B, CHR 0xE6,
     CHR 0x97, CHR 0xB6, CHR 0xE9, CHR 0x97, CHR 0xB4] @ '': ''"

definition alert_t3 :: string where
  \<comment> \<open><LF><U+7ED3><U+675F><U+65F6><U+95F4>: \<close>
  "alert_t3 =
     [CHR 0x0A, CHR 0xE7, CHR 0xBB, CHR 0x93, CHR 0xE6, CHR 0x9D, CHR 0x9F, CHR 0xE6,
     CHR 0x97, CHR 0xB6, CHR 0xE9, CHR 0x97, CHR 0xB4] @ '': ''"

definition alert_t4 :: string where
  \<comment> \<open><LF><U+63CF><U+8FF0>: \<close>
  "alert_t4 =
     [CHR 0x0A, CHR 0xE6, CHR 0x8F, CHR 0x8F, CHR 0xE8, CHR 0xBF, CHR 0xB0] @ '': ''"

definition cpu_t0 :: string where
  \<comment> \<open><LF>CPU<U+4FE1><U+606F>:<LF><U+603B><U+4F7F><U+7528><U+7387>: \<close>
  "cpu_t0 =
     [CHR 0x0A] @ ''CPU'' @ [CHR 0xE4, CHR 0xBF, CHR 0xA1, CHR 0xE6, CHR 0x81, CHR 0xAF] @
     '':'' @ [CHR 0x0A, CHR 0xE6, CHR 0x80, CHR 0xBB, CHR 0xE4, CHR 0xBD, CHR 0xBF,
     CHR 0xE7, CHR 0x94, CHR 0xA8, CHR 0xE7, CHR 0x8E, CHR 0x87] @ '': ''"

definition cpu_t1 :: string where
  \<comment> \<open>%<LF><U+7528><U+6237><U+7A7A><U+95F4>: \<close>
  "cpu_t1 =
     ''%'' @ [CHR 0x0A, CHR 0xE7, CHR 0x94, CHR 0xA8, CHR 0xE6, CHR 0x88, CHR 0xB7, CHR 0xE7,
     CHR 0xA9, CHR 0xBA, CHR 0xE9, CHR 0x97, CHR 0xB4] @ '': ''"

definition cpu_t2 :: string where
  \<comment> \<open>%<LF><U+7CFB><U+7EDF><U+7A7A><U+95F4>: \<close>
  "cpu_t2 =
     ''%'' @ [CHR 0x0A, CHR 0xE7, CHR 0xB3, CHR 0xBB, CHR 0xE7, CHR 0xBB, CHR 0x9F, CHR 0xE7,
     CHR 0xA9, CHR 0xBA, CHR 0xE9, CHR 0x97, CHR 0xB4] @ '': ''"

definition cpu_t3 :: string where
  \<comment> \<open>%<LF><U+7A7A><U+95F2>: \<close>
  "cpu_t3 =
     ''%'' @ [CHR 0x0A, CHR 0xE7, CHR 0xA9, CHR 0xBA, CHR 0xE9, CHR 0x97, CHR 0xB2] @ '': ''"

definition cpu_t4 :: string where
  \<comment> \<open>%<LF>I/O<U+7B49><U+5F85>: \<close>
  "cpu_t4 =
     ''%'' @ [CHR 0x0A] @ ''I/O'' @ [CHR 0xE7, CHR 0xAD, CHR 0x89, CHR 0xE5, CHR 0xBE,
     CHR 0x85] @ '': ''"

definition mem_t0 :: string where
  \<comment> \<open><LF><U+5185><U+5B58><U+4FE1><U+606F>:<LF><U+603B><U+5185><U+5B58>: \<close>
  "mem_t0 =
     [CHR 0x0A, CHR 0xE5, CHR 0x86, CHR 0x85, CHR 0xE5, CHR 0xAD, CHR 0x98, CHR 0xE4,
     CHR 0xBF, CHR 0xA1, CHR 0xE6, CHR 0x81, CHR 0xAF] @ '':'' @ [CHR 0x0A, CHR 0xE6,
     CHR 0x80, CHR 0xBB, CHR 0xE5, CHR 0x86, CHR 0x85, CHR 0xE5, CHR 0xAD, CHR 0x98] @
     '': ''"

definition txt_mb_used :: string where
  \<comment> \<open> MB<LF><U+5DF2><U+4F7F><U+7528>: \<close>
  "txt_mb_used =
     '' MB'' @ [CHR 0x0A, CHR 0xE5, CHR 0xB7, CHR 0xB2, CHR 0xE4, CHR 0xBD, CHR 0xBF,
     CHR 0xE7, CHR 0x94, CHR 0xA8] @ '': ''"

definition txt_mb_free :: string where
  \<comment> \<open> MB<LF><U+7A7A><U+95F2>: \<close>
  "txt_mb_free =
     '' MB'' @ [CHR 0x0A, CHR 0xE7, CHR 0xA9, CHR 0xBA, CHR 0xE9, CHR 0x97, CHR 0xB2] @
     '': ''"

definition txt_mb_pct :: string where
  \<comment> \<open> MB<LF><U+4F7F><U+7528><U+7387>: \<close>
  "txt_mb_pct =
     '' MB'' @ [CHR 0x0A, CHR 0xE4, CHR 0xBD, CHR 0xBF, CHR 0xE7, CHR 0x94, CHR 0xA8,
     CHR 0xE7, CHR 0x8E, CHR 0x87] @ '': ''"

definition disk_head :: string where
  \<comment> \<open><U+78C1><U+76D8>I/O<U+4FE1><U+606F>:<LF>\<close>
  "disk_head =
     [CHR 0xE7, CHR 0xA3, CHR 0x81, CHR 0xE7, CHR 0x9B, CHR 0x98] @ ''I/O'' @ [CHR 0xE4,
     CHR 0xBF, CHR 0xA1, CHR 0xE6, CHR 0x81, CHR 0xAF] @ '':'' @ [CHR 0x0A]"

definition txt_lbl_device :: string where
  \<comment> \<open><LF><U+8BBE><U+5907>: \<close>
  "txt_lbl_device =
     [CHR 0x0A, CHR 0xE8, CHR 0xAE, CHR 0xBE, CHR 0xE5, CHR 0xA4, CHR 0x87] @ '': ''"

definition disk_t1 :: string where
  \<comment> \<open><LF>  <U+8BFB><U+53D6>: \<close>
  "disk_t1 =
     [CHR 0x0A] @ ''  '' @ [CHR 0xE8, CHR 0xAF, CHR 0xBB, CHR 0xE5, CHR 0x8F, CHR 0x96] @
     '': ''"

definition disk_t2 :: string where
  \<comment> \<open> MB<LF>  <U+5199><U+5165>: \<close>
  "disk_t2 =
     '' MB'' @ [CHR 0x0A] @ ''  '' @ [CHR 0xE5, CHR 0x86, CHR 0x99, CHR 0xE5, CHR 0x85,
     CHR 0xA5] @ '': ''"

definition txt_mb_nl :: string where
  \<comment> \<open> MB<LF>\<close>
  "txt_mb_nl =
     '' MB'' @ [CHR 0x0A]"

definition sensors_head :: string where
  \<comment> \<open><U+4F20><U+611F><U+5668><U+4FE1><U+606F>:<LF>\<close>
  "sensors_head =
     [CHR 0xE4, CHR 0xBC, CHR 0xA0, CHR 0xE6, CHR 0x84, CHR 0x9F, CHR 0xE5, CHR 0x99,
     CHR 0xA8, CHR 0xE4, CHR 0xBF, CHR 0xA1, CHR 0xE6, CHR 0x81, CHR 0xAF] @ '':'' @
     [CHR 0x0A]"

definition txt_colon_nl :: string where
  \<comment> \<open>:<LF>\<close>
  "txt_colon_nl =
     '':'' @ [CHR 0x0A]"

definition sensors_t0 :: string where
  \<comment> \<open>  <U+503C>: \<close>
  "sensors_t0 =
     ''  '' @ [CHR 0xE5, CHR 0x80, CHR 0xBC] @ '': ''"

definition docker_none :: string where
  \<comment> \<open><U+6CA1><U+6709><U+8FD0><U+884C><U+4E2D><U+7684>Docker<U+5BB9><U+5668>\<close>
  "docker_none =
     [CHR 0xE6, CHR 0xB2, CHR 0xA1, CHR 0xE6, CHR 0x9C, CHR 0x89, CHR 0xE8, CHR 0xBF,
     CHR 0x90, CHR 0xE8, CHR 0xA1, CHR 0x8C, CHR 0xE4, CHR 0xB8, CHR 0xAD, CHR 0xE7,
     CHR 0x9A, CHR 0x84] @ ''Docker'' @ [CHR 0xE5, CHR 0xAE, CHR 0xB9, CHR 0xE5,
     CHR 0x99, CHR 0xA8]"

definition docker_head :: string where
  \<comment> \<open>Docker<U+5BB9><U+5668><U+4FE1><U+606F>:<LF>\<close>
  "docker_head =
     ''Docker'' @ [CHR 0xE5, CHR 0xAE, CHR 0xB9, CHR 0xE5, CHR 0x99, CHR 0xA8, CHR 0xE4,
     CHR 0xBF, CHR 0xA1, CHR 0xE6, CHR 0x81, CHR 0xAF] @ '':'' @ [CHR 0x0A]"

definition docker_t0 :: string where
  \<comment> \<open><LF><U+5BB9><U+5668>ID: \<close>
  "docker_t0 =
     [CHR 0x0A, CHR 0xE5, CHR 0xAE, CHR 0xB9, CHR 0xE5, CHR 0x99, CHR 0xA8] @ ''ID: ''"

definition docker_t1 :: string where
  \<comment> \<open><LF><U+955C><U+50CF>: \<close>
  "docker_t1 =
     [CHR 0x0A, CHR 0xE9, CHR 0x95, CHR 0x9C, CHR 0xE5, CHR 0x83, CHR 0x8F] @ '': ''"

definition docker_t2 :: string where
  \<comment> \<open><LF><U+72B6><U+6001>: \<close>
  "docker_t2 =
     [CHR 0x0A, CHR 0xE7, CHR 0x8A, CHR 0xB6, CHR 0xE6, CHR 0x80, CHR 0x81] @ '': ''"

definition gpu_none :: string where
  \<comment> \<open><U+6CA1><U+6709><U+68C0><U+6D4B><U+5230>GPU<U+6216>GPU<U+4FE1><U+606F><U+4E0D><U+53EF><U+7528>\<close>
  "gpu_none =
     [CHR 0xE6, CHR 0xB2, CHR 0xA1, CHR 0xE6, CHR 0x9C, CHR 0x89, CHR 0xE6, CHR 0xA3,
     CHR 0x80, CHR 0xE6, CHR 0xB5, CHR 0x8B, CHR 0xE5, CHR 0x88, CHR 0xB0] @ ''GPU'' @
     [CHR 0xE6, CHR 0x88, CHR 0x96] @ ''GPU'' @ [CHR 0xE4, CHR 0xBF, CHR 0xA1, CHR 0xE6,
     CHR 0x81, CHR 0xAF, CHR 0xE4, CHR 0xB8, CHR 0x8D, CHR 0xE5, CHR 0x8F, CHR 0xAF,
     CHR 0xE7, CHR 0x94, CHR 0xA8]"

definition gpu_head :: string where
  \<comment> \<open>GPU<U+4FE1><U+606F>:<LF>\<close>
  "gpu_head =
     ''GPU'' @ [CHR 0xE4, CHR 0xBF, CHR 0xA1, CHR 0xE6, CHR 0x81, CHR 0xAF] @ '':'' @ [CHR
     0x0A]"

definition gpu_t0 :: string where
  \<comment> \<open><LF>GPU ID: \<close>
  "gpu_t0 =
     [CHR 0x0A] @ ''GPU ID: ''"

definition gpu_t1 :: string where
  \<comment> \<open><LF><U+6E29><U+5EA6>: \<close>
  "gpu_t1 =
     [CHR 0x0A, CHR 0xE6, CHR 0xB8, CHR 0xA9, CHR 0xE5, CHR 0xBA, CHR 0xA6] @ '': ''"

definition gpu_t2 :: string where
  \<comment> \<open><U+00B0>C<LF><U+5904><U+7406><U+5668><U+4F7F><U+7528><U+7387>: \<close>
  "gpu_t2 =
     [CHR 0xC2, CHR 0xB0] @ ''C'' @ [CHR 0x0A, CHR 0xE5, CHR 0xA4, CHR 0x84, CHR 0xE7,
     CHR 0x90, CHR 0x86, CHR 0xE5, CHR 0x99, CHR 0xA8, CHR 0xE4, CHR 0xBD, CHR 0xBF,
     CHR 0xE7, CHR 0x94, CHR 0xA8, CHR 0xE7, CHR 0x8E, CHR 0x87] @ '': ''"

definition gpu_t3 :: string where
  \<comment> \<open>%<LF><U+98CE><U+6247><U+8F6C><U+901F>: \<close>
  "gpu_t3 =
     ''%'' @ [CHR 0x0A, CHR 0xE9, CHR 0xA3, CHR 0x8E, CHR 0xE6, CHR 0x89, CHR 0x87, CHR 0xE8,
     CHR 0xBD, CHR 0xAC, CHR 0xE9, CHR 0x80, CHR 0x9F] @ '': ''"

definition gpu_t4 :: string where
  \<comment> \<open> RPM<LF>\<close>
  "gpu_t4 =
     '' RPM'' @ [CHR 0x0A]"

definition pc_t0 :: string where
  \<comment> \<open><LF><U+8FDB><U+7A0B><U+7EDF><U+8BA1>:<LF><U+603B><U+6570>: \<close>
  "pc_t0 =
     [CHR 0x0A, CHR 0xE8, CHR 0xBF, CHR 0x9B, CHR 0xE7, CHR 0xA8, CHR 0x8B, CHR 0xE7,
     CHR 0xBB, CHR 0x9F, CHR 0xE8, CHR 0xAE, CHR 0xA1] @ '':'' @ [CHR 0x0A, CHR 0xE6,
     CHR 0x80, CHR 0xBB, CHR 0xE6, CHR 0x95, CHR 0xB0] @ '': ''"

definition pc_t1 :: string where
  \<comment> \<open><LF><U+8FD0><U+884C><U+4E2D>: \<close>
  "pc_t1 =
     [CHR 0x0A, CHR 0xE8, CHR 0xBF, CHR 0x90, CHR 0xE8, CHR 0xA1, CHR 0x8C, CHR 0xE4,
     CHR 0xB8, CHR 0xAD] @ '': ''"

definition pc_t2 :: string where
  \<comment> \<open><LF><U+4F11><U+7720>: \<close>
  "pc_t2 =
     [CHR 0x0A, CHR 0xE4, CHR 0xBC, CHR 0x91, CHR 0xE7, CHR 0x9C, CHR 0xA0] @ '': ''"

definition pc_t3 :: string where
  \<comment> \<open><LF><U+5176><U+4ED6>: \<close>
  "pc_t3 =
     [CHR 0x0A, CHR 0xE5, CHR 0x85, CHR 0xB6, CHR 0xE4, CHR 0xBB, CHR 0x96] @ '': ''"

definition pc_t4 :: string where
  \<comment> \<open><LF><U+7EBF><U+7A0B>: \<close>
  "pc_t4 =
     [CHR 0x0A, CHR 0xE7, CHR 0xBA, CHR 0xBF, CHR 0xE7, CHR 0xA8, CHR 0x8B] @ '': ''"

definition conn_t0 :: string where
  \<comment> \<open><LF><U+7F51><U+7EDC><U+8FDE><U+63A5><U+7EDF><U+8BA1>:<LF><U+5DF2><U+5EFA><U+7ACB><U+8FDE><U+63A5>: \<close>
  "conn_t0 =
     [CHR 0x0A, CHR 0xE7, CHR 0xBD, CHR 0x91, CHR 0xE7, CHR 0xBB, CHR 0x9C, CHR 0xE8,
     CHR 0xBF, CHR 0x9E, CHR 0xE6, CHR 0x8E, CHR 0xA5, CHR 0xE7, CHR 0xBB, CHR 0x9F,
     CHR 0xE8, CHR 0xAE, CHR 0xA1] @ '':'' @ [CHR 0x0A, CHR 0xE5, CHR 0xB7, CHR 0xB2,
     CHR 0xE5, CHR 0xBB, CHR 0xBA, CHR 0xE7, CHR 0xAB, CHR 0x8B, CHR 0xE8, CHR 0xBF,
     CHR 0x9E, CHR 0xE6, CHR 0x8E, CHR 0xA5] @ '': ''"

definition conn_t1 :: string where
  \<comment> \<open><LF><U+76D1><U+542C><U+7AEF><U+53E3>: \<close>
  "conn_t1 =
     [CHR 0x0A, CHR 0xE7, CHR 0x9B, CHR 0x91, CHR 0xE5, CHR 0x90, CHR 0xAC, CHR 0xE7,
     CHR 0xAB, CHR 0xAF, CHR 0xE5, CHR 0x8F, CHR 0xA3] @ '': ''"

definition conn_t2 :: string where
  \<comment> \<open><LF><U+7B49><U+5F85><U+8FDE><U+63A5>: \<close>
  "conn_t2 =
     [CHR 0x0A, CHR 0xE7, CHR 0xAD, CHR 0x89, CHR 0xE5, CHR 0xBE, CHR 0x85, CHR 0xE8,
     CHR 0xBF, CHR 0x9E, CHR 0xE6, CHR 0x8E, CHR 0xA5] @ '': ''"

definition conn_t3 :: string where
  \<comment> \<open><LF><U+63A5><U+6536><U+8FDE><U+63A5>: \<close>
  "conn_t3 =
     [CHR 0x0A, CHR 0xE6, CHR 0x8E, CHR 0xA5, CHR 0xE6, CHR 0x94, CHR 0xB6, CHR 0xE8,
     CHR 0xBF, CHR 0x9E, CHR 0xE6, CHR 0x8E, CHR 0xA5] @ '': ''"

definition conn_t4 :: string where
  \<comment> \<open><LF><U+5DF2><U+53D1><U+8D77><U+8FDE><U+63A5>: \<close>
  "conn_t4 =
     [CHR 0x0A, CHR 0xE5, CHR 0xB7, CHR 0xB2, CHR 0xE5, CHR 0x8F, CHR 0x91, CHR 0xE8,
     CHR 0xB5, CHR 0xB7, CHR 0xE8, CHR 0xBF, CHR 0x9E, CHR 0xE6, CHR 0x8E, CHR 0xA5] @
     '': ''"

definition conn_t5 :: string where
  \<comment> \<open><LF><U+5DF2><U+7EC8><U+6B62><U+8FDE><U+63A5>: \<close>
  "conn_t5 =
     [CHR 0x0A, CHR 0xE5, CHR 0xB7, CHR 0xB2, CHR 0xE7, CHR 0xBB, CHR 0x88, CHR 0xE6,
     CHR 0xAD, CHR 0xA2, CHR 0xE8, CHR 0xBF, CHR 0x9E, CHR 0xE6, CHR 0x8E, CHR 0xA5] @
     '': ''"

definition ip_head :: string where
  \<comment> \<open>IP<U+5730><U+5740><U+4FE1><U+606F>:<LF>\<close>
  "ip_head =
     ''IP'' @ [CHR 0xE5, CHR 0x9C, CHR 0xB0, CHR 0xE5, CHR 0x9D, CHR 0x80, CHR 0xE4,
     CHR 0xBF, CHR 0xA1, CHR 0xE6, CHR 0x81, CHR 0xAF] @ '':'' @ [CHR 0x0A]"

definition txt_paren_nl :: string where
  \<comment> \<open>)<LF>\<close>
  "txt_paren_nl =
     '')'' @ [CHR 0x0A]"

subsection \<open>Byte counts\<close>

text \<open>The loop of \<^verbatim>\<open>format_bytes\<close> over the units B, KB, MB, GB, TB; what is left
  after the last division is labelled PB.\<close>

fun format_bytes_loop :: "rat \<Rightarrow> string list \<Rightarrow> string" where
  "format_bytes_loop bytes_value [] = fmt2f bytes_value @ '' PB''"
| "format_bytes_loop bytes_value (unit # units) =
     (if bytes_value < 1024 then fmt2f bytes_value @ '' '' @ unit
      else format_bytes_loop (bytes_value / 1024) units)"

definition format_bytes :: "json \<Rightarrow> string result" where
  "format_bytes bytes_value =
     bind_e (num_of bytes_value)
       (\<lambda>v. Inr (format_bytes_loop v [''B'', ''KB'', ''MB'', ''GB'', ''TB'']))"

definition format_bytes_rate :: "json \<Rightarrow> string result" where
  "format_bytes_rate bytes_per_sec = format_bytes bytes_per_sec"

subsection \<open>The report formatters\<close>

definition format_system_info :: "json \<Rightarrow> string result" where
  "format_system_info data =
     render
       [lit sys_t0, fld (py_get data ''hostname'' (JStr ''Unknown'')),
        lit sys_t1, fld (py_get data ''os_name'' (JStr ''Unknown'')),
        lit '' '', fld (py_get data ''os_version'' (JStr [])),
        lit txt_cpu_usage,
        fld (bind_e (py_get data ''cpu'' (JDict [])) (\<lambda>c. py_get c ''total'' (JInt 0))),
        lit txt_pct_mem_usage,
        fld (bind_e (py_get data ''mem'' (JDict [])) (\<lambda>c. py_get c ''percent'' (JInt 0))),
        lit sys_t4,
        fld (bind_e (py_get data ''diskio'' (JDict [])) (\<lambda>c. py_get c ''percent'' (JInt 0))),
        lit txt_pct_nl]"

text \<open>\<^verbatim>\<open>enumerate(xs)\<close>.\<close>

definition enumerate_list :: "'a list \<Rightarrow> (nat \<times> 'a) list" where
  "enumerate_list xs = zip [0..<length xs] xs"

definition format_process_info :: "json \<Rightarrow> string result" where
  "format_process_info processes =
     bind_e (py_slice 5 processes) (\<lambda>first5. bind_e (py_iter first5) (\<lambda>procs.
       render (lit proc_head #
         map (\<lambda>(i, proc). render
           [lit txt_nl, lit (string_of_nat (i + 1)), lit ''. '',
            fld (py_get proc ''name'' (JStr ''Unknown'')),
            lit '' (PID: '', fld (py_get proc ''pid'' (JStr ''Unknown'')),
            lit proc_t0, fld (py_get proc ''cpu_percent'' (JInt 0)),
            lit proc_t1, fld (py_get proc ''memory_percent'' (JInt 0)),
            lit txt_pct_nl]) (enumerate_list procs))))"

definition format_alert_info :: "json \<Rightarrow> string result" where
  "format_alert_info alerts =
     (if \<not> truthy alerts then Inr alert_none
      else bind_e (py_iter alerts) (\<lambda>items.
        render (lit alert_head #
          map (\<lambda>alert. render
            [lit alert_t0, fld (py_get alert ''type'' (JStr ''Unknown'')),
             lit alert_t1, fld (py_get alert ''state'' (JStr ''Unknown'')),
             lit alert_t2, fld (py_get alert ''begin'' (JStr ''Unknown'')),
             lit alert_t3,
             fld (bind_e (py_get alert ''end'' JNull) (\<lambda>e.
                  bind_e (py_get alert ''end'' (JStr ''Unknown'')) (\<lambda>e'.
                  py_get alert ''end'' (if eq_minus_one e then JStr ''-1'' else e')))),
             lit alert_t4, fld (py_get alert ''desc'' (JStr ''No description'')),
             lit txt_nl]) items)))"

definition format_cpu_info :: "json \<Rightarrow> string result" where
  "format_cpu_info data =
     render
       [lit cpu_t0, fld (py_get data ''total'' (JInt 0)),
        lit cpu_t1, fld (py_get data ''user'' (JInt 0)),
        lit cpu_t2, fld (py_get data ''system'' (JInt 0)),
        lit cpu_t3, fld (py_get data ''idle'' (JInt 0)),
        lit cpu_t4, fld (py_get data ''iowait'' (JInt 0)),
        lit txt_pct_nl]"

definition format_memory_info :: "json \<Rightarrow> string result" where
  "format_memory_info data =
     render
       [lit mem_t0, fld_div2f (py_get data ''total'' (JInt 0)) [1024, 1024],
        lit txt_mb_used, fld_div2f (py_get data ''used'' (JInt 0)) [1024, 1024],
        lit txt_mb_free, fld_div2f (py_get data ''free'' (JInt 0)) [1024, 1024],
        lit txt_mb_pct, fld (py_get data ''percent'' (JInt 0)),
        lit txt_pct_nl]"

definition format_disk_info :: "json \<Rightarrow> string result" where
  "format_disk_info data =
     bind_e (py_items data) (\<lambda>items.
       render (lit disk_head #
         map (\<lambda>(disk, info). render
           [lit txt_lbl_device, lit disk,
            lit disk_t1, fld_div2f (py_get info ''read_bytes'' (JInt 0)) [1024, 1024],
            lit disk_t2, fld_div2f (py_get info ''write_bytes'' (JInt 0)) [1024, 1024],
            lit txt_mb_nl]) items))"

definition format_sensors_info :: "json \<Rightarrow> string result" where
  "format_sensors_info data =
     bind_e (py_items data) (\<lambda>items.
       render (lit sensors_head #
         map (\<lambda>(sensor_type, sensors). render
           [lit txt_nl, lit sensor_type, lit txt_colon_nl,
            (case sensors of
               JList xs \<Rightarrow> render (map (\<lambda>sensor. render
                 [lit ''  '', fld (py_get sensor ''label'' (JStr ''Unknown'')),
                  lit '': '', fld (py_get sensor ''value'' (JInt 0)),
                  lit '' '', fld (py_get sensor ''unit'' (JStr [])), lit txt_nl]) xs)
             | JDict kvs \<Rightarrow> render
                 [lit sensors_t0, fld (py_get sensors ''value'' (JInt 0)),
                  lit '' '', fld (py_get sensors ''unit'' (JStr [])), lit txt_nl]
             | _ \<Rightarrow> Inr [])]) items))"

definition format_docker_info :: "json \<Rightarrow> string result" where
  "format_docker_info containers =
     (if \<not> truthy containers then Inr docker_none
      else bind_e (py_iter containers) (\<lambda>items.
        render (lit docker_head #
          map (\<lambda>container. render
            [lit docker_t0,
             fld (bind_e (py_get container ''id'' (JStr ''Unknown'')) (py_slice 12)),
             lit txt_lbl_name, fld (py_get container ''name'' (JStr ''Unknown'')),
             lit docker_t1,
             fld (bind_e (py_get container ''image'' (JList [JStr ''Unknown''])) py_index0),
             lit docker_t2, fld (py_get container ''status'' (JStr ''Unknown'')),
             lit txt_cpu_usage, fld (py_get container ''cpu_percent'' (JInt 0)),
             lit txt_pct_mem_usage, fld (py_get container ''memory_percent'' (JInt 0)),
             lit txt_pct_nl]) items)))"

definition format_gpu_info :: "json \<Rightarrow> string result" where
  "format_gpu_info data =
     (if \<not> truthy data then Inr gpu_none
      else bind_e (py_iter data) (\<lambda>items.
        render (lit gpu_head #
          map (\<lambda>gpu. render
            [lit gpu_t0, fld (py_get gpu ''gpu_id'' (JStr ''Unknown'')),
             lit txt_lbl_name, fld (py_get gpu ''name'' (JStr ''Unknown'')),
             lit gpu_t1, fld (py_get gpu ''temperature'' (JInt 0)),
             lit gpu_t2, fld (py_get gpu ''proc'' (JInt 0)),
             lit txt_pct_mem_usage, fld (py_get gpu ''mem'' (JInt 0)),
             lit gpu_t3, fld (py_get gpu ''fan_speed'' (JInt 0)),
             lit gpu_t4]) items)))"

definition format_process_count :: "json \<Rightarrow> string result" where
  "format_process_count data =
     render
       [lit pc_t0, fld (py_get data ''total'' (JInt 0)),
        lit pc_t1, fld (py_get data ''running'' (JInt 0)),
        lit pc_t2, fld (py_get data ''sleeping'' (JInt 0)),
        lit pc_t3, fld (py_get data ''other'' (JInt 0)),
        lit pc_t4, fld (py_get data ''thread'' (JInt 0)),
        lit txt_nl]"

definition format_connections_info :: "json \<Rightarrow> string result" where
  "format_connections_info data =
     render
       [lit conn_t0, fld (py_get data ''ESTABLISHED'' (JInt 0)),
        lit conn_t1, fld (py_get data ''LISTEN'' (JInt 0)),
        lit conn_t2, fld (py_get data ''SYN_SENT'' (JInt 0)),
        lit conn_t3, fld (py_get data ''SYN_RECV'' (JInt 0)),
        lit conn_t4, fld (py_get data ''initiated'' (JInt 0)),
        lit conn_t5, fld (py_get data ''terminated'' (JInt 0)),
        lit txt_nl]"

definition format_ip_info :: "json \<Rightarrow> string result" where
  "format_ip_info data =
     bind_e (py_items data) (\<lambda>items.
       render (lit ip_head #
         map (\<lambda>(interface, addresses). render
           [lit txt_nl, lit interface, lit txt_colon_nl,
            bind_e (py_iter addresses) (\<lambda>addrs. render (map (\<lambda>addr. render
              [lit ''  '', fld (py_get addr ''address'' (JStr ''Unknown'')),
               lit '' ('', fld (py_get addr ''family'' (JStr ''Unknown'')),
               lit txt_paren_nl]) addrs))]) items))"

section \<open>Operation handlers\<close>

subsection \<open>Texts of the handlers\<close>

definition na_server_a :: string where
  \<comment> \<open><U+65E0><U+6CD5><U+83B7><U+53D6><U+670D><U+52A1><U+5668> <APOS>\<close>
  "na_server_a =
     [CHR 0xE6, CHR 0x97, CHR 0xA0, CHR 0xE6, CHR 0xB3, CHR 0x95, CHR 0xE8, CHR 0x8E,
     CHR 0xB7, CHR 0xE5, CHR 0x8F, CHR 0x96, CHR 0xE6, CHR 0x9C, CHR 0x8D, CHR 0xE5,
     CHR 0x8A, CHR 0xA1, CHR 0xE5, CHR 0x99, CHR 0xA8] @ '' '' @ [CHR 0x27]"

definition na_system_b :: string where
  \<comment> \<open><APOS> <U+7684><U+7CFB><U+7EDF><U+4FE1><U+606F><U+3002>\<close>
  "na_system_b =
     [CHR 0x27] @ '' '' @ [CHR 0xE7, CHR 0x9A, CHR 0x84, CHR 0xE7, CHR 0xB3, CHR 0xBB,
     CHR 0xE7, CHR 0xBB, CHR 0x9F, CHR 0xE4, CHR 0xBF, CHR 0xA1, CHR 0xE6, CHR 0x81,
     CHR 0xAF, CHR 0xE3, CHR 0x80, CHR 0x82]"

definition hdr_server_a :: string where
  \<comment> \<open><U+670D><U+52A1><U+5668> <APOS>\<close>
  "hdr_server_a =
     [CHR 0xE6, CHR 0x9C, CHR 0x8D, CHR 0xE5, CHR 0x8A, CHR 0xA1, CHR 0xE5, CHR 0x99,
     CHR 0xA8] @ '' '' @ [CHR 0x27]"

definition hdr_system_b :: string where
  \<comment> \<open><APOS> <U+7684><U+7CFB><U+7EDF><U+4FE1><U+606F>:<LF>\<close>
  "hdr_system_b =
     [CHR 0x27] @ '' '' @ [CHR 0xE7, CHR 0x9A, CHR 0x84, CHR 0xE7, CHR 0xB3, CHR 0xBB,
     CHR 0xE7, CHR 0xBB, CHR 0x9F, CHR 0xE4, CHR 0xBF, CHR 0xA1, CHR 0xE6, CHR 0x81,
     CHR 0xAF] @ '':'' @ [CHR 0x0A]"

definition na_process_b :: string where
  \<comment> \<open><APOS> <U+7684><U+8FDB><U+7A0B><U+4FE1><U+606F><U+3002>\<close>
  "na_process_b =
     [CHR 0x27] @ '' '' @ [CHR 0xE7, CHR 0x9A, CHR 0x84, CHR 0xE8, CHR 0xBF, CHR 0x9B,
     CHR 0xE7, CHR 0xA8, CHR 0x8B, CHR 0xE4, CHR 0xBF, CHR 0xA1, CHR 0xE6, CHR 0x81,
     CHR 0xAF, CHR 0xE3, CHR 0x80, CHR 0x82]"

definition hdr_process_b :: string where
  \<comment> \<open><APOS> <U+7684><U+8FDB><U+7A0B><U+4FE1><U+606F>:<LF>\<close>
  "hdr_process_b =
     [CHR 0x27] @ '' '' @ [CHR 0xE7, CHR 0x9A, CHR 0x84, CHR 0xE8, CHR 0xBF, CHR 0x9B,
     CHR 0xE7, CHR 0xA8, CHR 0x8B, CHR 0xE4, CHR 0xBF, CHR 0xA1, CHR 0xE6, CHR 0x81,
     CHR 0xAF] @ '':'' @ [CHR 0x0A]"

definition na_network :: string where
  \<comment> \<open><U+65E0><U+6CD5><U+83B7><U+53D6><U+7F51><U+7EDC><U+4FE1><U+606F><U+3002>\<close>
  "na_network =
     [CHR 0xE6, CHR 0x97, CHR 0xA0, CHR 0xE6, CHR 0xB3, CHR 0x95, CHR 0xE8, CHR 0x8E,
     CHR 0xB7, CHR 0xE5, CHR 0x8F, CHR 0x96, CHR 0xE7, CHR 0xBD, CHR 0x91, CHR 0xE7,
     CHR 0xBB, CHR 0x9C, CHR 0xE4, CHR 0xBF, CHR 0xA1, CHR 0xE6, CHR 0x81, CHR 0xAF,
     CHR 0xE3, CHR 0x80, CHR 0x82]"

definition net_head :: string where
  \<comment> \<open><U+7F51><U+7EDC><U+4FE1><U+606F>:<LF>\<close>
  "net_head =
     [CHR 0xE7, CHR 0xBD, CHR 0x91, CHR 0xE7, CHR 0xBB, CHR 0x9C, CHR 0xE4, CHR 0xBF,
     CHR 0xA1, CHR 0xE6, CHR 0x81, CHR 0xAF] @ '':'' @ [CHR 0x0A]"

definition net_t0 :: string where
  \<comment> \<open><LF><U+63A5><U+53E3>: \<close>
  "net_t0 =
     [CHR 0x0A, CHR 0xE6, CHR 0x8E, CHR 0xA5, CHR 0xE5, CHR 0x8F, CHR 0xA3] @ '': ''"

definition net_t1 :: string where
  \<comment> \<open><LF>  <U+94FE><U+63A5><U+901F><U+5EA6>: \<close>
  "net_t1 =
     [CHR 0x0A] @ ''  '' @ [CHR 0xE9, CHR 0x93, CHR 0xBE, CHR 0xE6, CHR 0x8E, CHR 0xA5,
     CHR 0xE9, CHR 0x80, CHR 0x9F, CHR 0xE5, CHR 0xBA, CHR 0xA6] @ '': ''"

definition net_t2 :: string where
  \<comment> \<open> Gbps<LF>  <U+5F53><U+524D><U+901F><U+7387>:<LF>    <U+63A5><U+6536>: \<close>
  "net_t2 =
     '' Gbps'' @ [CHR 0x0A] @ ''  '' @ [CHR 0xE5, CHR 0xBD, CHR 0x93, CHR 0xE5, CHR 0x89,
     CHR 0x8D, CHR 0xE9, CHR 0x80, CHR 0x9F, CHR 0xE7, CHR 0x8E, CHR 0x87] @ '':'' @
     [CHR 0x0A] @ ''    '' @ [CHR 0xE6, CHR 0x8E, CHR 0xA5, CHR 0xE6, CHR 0x94,
     CHR 0xB6] @ '': ''"

definition net_t3 :: string where
  \<comment> \<open>/s<LF>    <U+53D1><U+9001>: \<close>
  "net_t3 =
     ''/s'' @ [CHR 0x0A] @ ''    '' @ [CHR 0xE5, CHR 0x8F, CHR 0x91, CHR 0xE9, CHR 0x80,
     CHR 0x81] @ '': ''"

definition net_t4 :: string where
  \<comment> \<open>/s<LF>  <U+603B><U+6D41><U+91CF>:<LF>    <U+63A5><U+6536>: \<close>
  "net_t4 =
     ''/s'' @ [CHR 0x0A] @ ''  '' @ [CHR 0xE6, CHR 0x80, CHR 0xBB, CHR 0xE6, CHR 0xB5,
     CHR 0x81, CHR 0xE9, CHR 0x87, CHR 0x8F] @ '':'' @ [CHR 0x0A] @ ''    '' @ [CHR
     0xE6, CHR 0x8E, CHR 0xA5, CHR 0xE6, CHR 0x94, CHR 0xB6] @ '': ''"

definition net_t5 :: string where
  \<comment> \<open><LF>    <U+53D1><U+9001>: \<close>
  "net_t5 =
     [CHR 0x0A] @ ''    '' @ [CHR 0xE5, CHR 0x8F, CHR 0x91, CHR 0xE9, CHR 0x80, CHR 0x81] @
     '': ''"

definition na_alert :: string where
  \<comment> \<open><U+65E0><U+6CD5><U+83B7><U+53D6><U+544A><U+8B66><U+4FE1><U+606F><U+3002>\<close>
  "na_alert =
     [CHR 0xE6, CHR 0x97, CHR 0xA0, CHR 0xE6, CHR 0xB3, CHR 0x95, CHR 0xE8, CHR 0x8E,
     CHR 0xB7, CHR 0xE5, CHR 0x8F, CHR 0x96, CHR 0xE5, CHR 0x91, CHR 0x8A, CHR 0xE8,
     CHR 0xAD, CHR 0xA6, CHR 0xE4, CHR 0xBF, CHR 0xA1, CHR 0xE6, CHR 0x81, CHR 0xAF,
     CHR 0xE3, CHR 0x80, CHR 0x82]"

definition clear_ok :: string where
  \<comment> \<open><U+5DF2><U+6210><U+529F><U+6E05><U+9664><U+6240><U+6709><U+544A><U+8B66><U+3002>\<close>
  "clear_ok =
     [CHR 0xE5, CHR 0xB7, CHR 0xB2, CHR 0xE6, CHR 0x88, CHR 0x90, CHR 0xE5, CHR 0x8A,
     CHR 0x9F, CHR 0xE6, CHR 0xB8, CHR 0x85, CHR 0xE9, CHR 0x99, CHR 0xA4, CHR 0xE6,
     CHR 0x89, CHR 0x80, CHR 0xE6, CHR 0x9C, CHR 0x89, CHR 0xE5, CHR 0x91, CHR 0x8A,
     CHR 0xE8, CHR 0xAD, CHR 0xA6, CHR 0xE3, CHR 0x80, CHR 0x82]"

definition clear_failed :: string where
  \<comment> \<open><U+6E05><U+9664><U+544A><U+8B66><U+5931><U+8D25><U+3002>\<close>
  "clear_failed =
     [CHR 0xE6, CHR 0xB8, CHR 0x85, CHR 0xE9, CHR 0x99, CHR 0xA4, CHR 0xE5, CHR 0x91,
     CHR 0x8A, CHR 0xE8, CHR 0xAD, CHR 0xA6, CHR 0xE5, CHR 0xA4, CHR 0xB1, CHR 0xE8,
     CHR 0xB4, CHR 0xA5, CHR 0xE3, CHR 0x80, CHR 0x82]"

definition na_cpu :: string where
  \<comment> \<open><U+65E0><U+6CD5><U+83B7><U+53D6>CPU<U+4FE1><U+606F><U+3002>\<close>
  "na_cpu =
     [CHR 0xE6, CHR 0x97, CHR 0xA0, CHR 0xE6, CHR 0xB3, CHR 0x95, CHR 0xE8, CHR 0x8E,
     CHR 0xB7, CHR 0xE5, CHR 0x8F, CHR 0x96] @ ''CPU'' @ [CHR 0xE4, CHR 0xBF, CHR 0xA1,
     CHR 0xE6, CHR 0x81, CHR 0xAF, CHR 0xE3, CHR 0x80, CHR 0x82]"

definition na_memory :: string where
  \<comment> \<open><U+65E0><U+6CD5><U+83B7><U+53D6><U+5185><U+5B58><U+4FE1><U+606F><U+3002>\<close>
  "na_memory =
     [CHR 0xE6, CHR 0x97, CHR 0xA0, CHR 0xE6, CHR 0xB3, CHR 0x95, CHR 0xE8, CHR 0x8E,
     CHR 0xB7, CHR 0xE5, CHR 0x8F, CHR 0x96, CHR 0xE5, CHR 0x86, CHR 0x85, CHR 0xE5,
     CHR 0xAD, CHR 0x98, CHR 0xE4, CHR 0xBF, CHR 0xA1, CHR 0xE6, CHR 0x81, CHR 0xAF,
     CHR 0xE3, CHR 0x80, CHR 0x82]"

definition na_diskio :: string where
  \<comment> \<open><U+65E0><U+6CD5><U+83B7><U+53D6><U+78C1><U+76D8>I/O<U+4FE1><U+606F><U+3002>\<close>
  "na_diskio =
     [CHR 0xE6, CHR 0x97, CHR 0xA0, CHR 0xE6, CHR 0xB3, CHR 0x95, CHR 0xE8, CHR 0x8E,
     CHR 0xB7, CHR 0xE5, CHR 0x8F, CHR 0x96, CHR 0xE7, CHR 0xA3, CHR 0x81, CHR 0xE7,
     CHR 0x9B, CHR 0x98] @ ''I/O'' @ [CHR 0xE4, CHR 0xBF, CHR 0xA1, CHR 0xE6, CHR 0x81,
     CHR 0xAF, CHR 0xE3, CHR 0x80, CHR 0x82]"

definition na_plugins :: string where
  \<comment> \<open><U+65E0><U+6CD5><U+83B7><U+53D6><U+63D2><U+4EF6><U+5217><U+8868><U+3002>\<close>
  "na_plugins =
     [CHR 0xE6, CHR 0x97, CHR 0xA0, CHR 0xE6, CHR 0xB3, CHR 0x95, CHR 0xE8, CHR 0x8E,
     CHR 0xB7, CHR 0xE5, CHR 0x8F, CHR 0x96, CHR 0xE6, CHR 0x8F, CHR 0x92, CHR 0xE4,
     CHR 0xBB, CHR 0xB6, CHR 0xE5, CHR 0x88, CHR 0x97, CHR 0xE8, CHR 0xA1, CHR 0xA8,
     CHR 0xE3, CHR 0x80, CHR 0x82]"

definition plugins_head :: string where
  \<comment> \<open><U+5DF2><U+542F><U+7528><U+7684><U+63D2><U+4EF6>:<LF>\<close>
  "plugins_head =
     [CHR 0xE5, CHR 0xB7, CHR 0xB2, CHR 0xE5, CHR 0x90, CHR 0xAF, CHR 0xE7, CHR 0x94,
     CHR 0xA8, CHR 0xE7, CHR 0x9A, CHR 0x84, CHR 0xE6, CHR 0x8F, CHR 0x92, CHR 0xE4,
     CHR 0xBB, CHR 0xB6] @ '':'' @ [CHR 0x0A]"

definition na_sensors :: string where
  \<comment> \<open><U+65E0><U+6CD5><U+83B7><U+53D6><U+4F20><U+611F><U+5668><U+4FE1><U+606F><U+3002>\<close>
  "na_sensors =
     [CHR 0xE6, CHR 0x97, CHR 0xA0, CHR 0xE6, CHR 0xB3, CHR 0x95, CHR 0xE8, CHR 0x8E,
     CHR 0xB7, CHR 0xE5, CHR 0x8F, CHR 0x96, CHR 0xE4, CHR 0xBC, CHR 0xA0, CHR 0xE6,
     CHR 0x84, CHR 0x9F, CHR 0xE5, CHR 0x99, CHR 0xA8, CHR 0xE4, CHR 0xBF, CHR 0xA1,
     CHR 0xE6, CHR 0x81, CHR 0xAF, CHR 0xE3, CHR 0x80, CHR 0x82]"

definition na_docker :: string where
  \<comment> \<open><U+65E0><U+6CD5><U+83B7><U+53D6>Docker<U+5BB9><U+5668><U+4FE1><U+606F><U+3002>\<close>
  "na_docker =
     [CHR 0xE6, CHR 0x97, CHR 0xA0, CHR 0xE6, CHR 0xB3, CHR 0x95, CHR 0xE8, CHR 0x8E,
     CHR 0xB7, CHR 0xE5, CHR 0x8F, CHR 0x96] @ ''Docker'' @ [CHR 0xE5, CHR 0xAE,
     CHR 0xB9, CHR 0xE5, CHR 0x99, CHR 0xA8, CHR 0xE4, CHR 0xBF, CHR 0xA1, CHR 0xE6,
     CHR 0x81, CHR 0xAF, CHR 0xE3, CHR 0x80, CHR 0x82]"

definition na_gpu :: string where
  \<comment> \<open><U+65E0><U+6CD5><U+83B7><U+53D6>GPU<U+4FE1><U+606F><U+3002>\<close>
  "na_gpu =
     [CHR 0xE6, CHR 0x97, CHR 0xA0, CHR 0xE6, CHR 0xB3, CHR 0x95, CHR 0xE8, CHR 0x8E,
     CHR 0xB7, CHR 0xE5, CHR 0x8F, CHR 0x96] @ ''GPU'' @ [CHR 0xE4, CHR 0xBF, CHR 0xA1,
     CHR 0xE6, CHR 0x81, CHR 0xAF, CHR 0xE3, CHR 0x80, CHR 0x82]"

definition na_quicklook :: string where
  \<comment> \<open><U+65E0><U+6CD5><U+83B7><U+53D6><U+7CFB><U+7EDF><U+6982><U+89C8><U+4FE1><U+606F><U+3002>\<close>
  "na_quicklook =
     [CHR 0xE6, CHR 0x97, CHR 0xA0, CHR 0xE6, CHR 0xB3, CHR 0x95, CHR 0xE8, CHR 0x8E,
     CHR 0xB7, CHR 0xE5, CHR 0x8F, CHR 0x96, CHR 0xE7, CHR 0xB3, CHR 0xBB, CHR 0xE7,
     CHR 0xBB, CHR 0x9F, CHR 0xE6, CHR 0xA6, CHR 0x82, CHR 0xE8, CHR 0xA7, CHR 0x88,
     CHR 0xE4, CHR 0xBF, CHR 0xA1, CHR 0xE6, CHR 0x81, CHR 0xAF, CHR 0xE3, CHR 0x80,
     CHR 0x82]"

definition ql_t0 :: string where
  \<comment> \<open><LF><U+7CFB><U+7EDF><U+6982><U+89C8>:<LF>CPU: \<close>
  "ql_t0 =
     [CHR 0x0A, CHR 0xE7, CHR 0xB3, CHR 0xBB, CHR 0xE7, CHR 0xBB, CHR 0x9F, CHR 0xE6,
     CHR 0xA6, CHR 0x82, CHR 0xE8, CHR 0xA7, CHR 0x88] @ '':'' @ [CHR 0x0A] @ ''CPU: ''"

definition ql_t1 :: string where
  \<comment> \<open>%<LF><U+5185><U+5B58>: \<close>
  "ql_t1 =
     ''%'' @ [CHR 0x0A, CHR 0xE5, CHR 0x86, CHR 0x85, CHR 0xE5, CHR 0xAD, CHR 0x98] @ '': ''"

definition ql_t2 :: string where
  \<comment> \<open>%<LF><U+4EA4><U+6362><U+5206><U+533A>: \<close>
  "ql_t2 =
     ''%'' @ [CHR 0x0A, CHR 0xE4, CHR 0xBA, CHR 0xA4, CHR 0xE6, CHR 0x8D, CHR 0xA2, CHR 0xE5,
     CHR 0x88, CHR 0x86, CHR 0xE5, CHR 0x8C, CHR 0xBA] @ '': ''"

definition ql_t3 :: string where
  \<comment> \<open>%<LF><U+7CFB><U+7EDF><U+8D1F><U+8F7D>: \<close>
  "ql_t3 =
     ''%'' @ [CHR 0x0A, CHR 0xE7, CHR 0xB3, CHR 0xBB, CHR 0xE7, CHR 0xBB, CHR 0x9F, CHR 0xE8,
     CHR 0xB4, CHR 0x9F, CHR 0xE8, CHR 0xBD, CHR 0xBD] @ '': ''"

definition na_fs :: string where
  \<comment> \<open><U+65E0><U+6CD5><U+83B7><U+53D6><U+6587><U+4EF6><U+7CFB><U+7EDF><U+4FE1><U+606F><U+3002>\<close>
  "na_fs =
     [CHR 0xE6, CHR 0x97, CHR 0xA0, CHR 0xE6, CHR 0xB3, CHR 0x95, CHR 0xE8, CHR 0x8E,
     CHR 0xB7, CHR 0xE5, CHR 0x8F, CHR 0x96, CHR 0xE6, CHR 0x96, CHR 0x87, CHR 0xE4,
     CHR 0xBB, CHR 0xB6, CHR 0xE7, CHR 0xB3, CHR 0xBB, CHR 0xE7, CHR 0xBB, CHR 0x9F,
     CHR 0xE4, CHR 0xBF, CHR 0xA1, CHR 0xE6, CHR 0x81, CHR 0xAF, CHR 0xE3, CHR 0x80,
     CHR 0x82]"

definition fs_head :: string where
  \<comment> \<open><U+6587><U+4EF6><U+7CFB><U+7EDF><U+4FE1><U+606F>:<LF>\<close>
  "fs_head =
     [CHR 0xE6, CHR 0x96, CHR 0x87, CHR 0xE4, CHR 0xBB, CHR 0xB6, CHR 0xE7, CHR 0xB3,
     CHR 0xBB, CHR 0xE7, CHR 0xBB, CHR 0x9F, CHR 0xE4, CHR 0xBF, CHR 0xA1, CHR 0xE6,
     CHR 0x81, CHR 0xAF] @ '':'' @ [CHR 0x0A]"

definition fs_t0 :: string where
  \<comment> \<open><LF><U+6302><U+8F7D><U+70B9>: \<close>
  "fs_t0 =
     [CHR 0x0A, CHR 0xE6, CHR 0x8C, CHR 0x82, CHR 0xE8, CHR 0xBD, CHR 0xBD, CHR 0xE7,
     CHR 0x82, CHR 0xB9] @ '': ''"

definition fs_t1 :: string where
  \<comment> \<open><LF><U+603B><U+7A7A><U+95F4>: \<close>
  "fs_t1 =
     [CHR 0x0A, CHR 0xE6, CHR 0x80, CHR 0xBB, CHR 0xE7, CHR 0xA9, CHR 0xBA, CHR 0xE9,
     CHR 0x97, CHR 0xB4] @ '': ''"

definition fs_t2 :: string where
  \<comment> \<open> GB<LF><U+5DF2><U+7528>: \<close>
  "fs_t2 =
     '' GB'' @ [CHR 0x0A, CHR 0xE5, CHR 0xB7, CHR 0xB2, CHR 0xE7, CHR 0x94, CHR 0xA8] @
     '': ''"

definition fs_t3 :: string where
  \<comment> \<open> GB<LF><U+53EF><U+7528>: \<close>
  "fs_t3 =
     '' GB'' @ [CHR 0x0A, CHR 0xE5, CHR 0x8F, CHR 0xAF, CHR 0xE7, CHR 0x94, CHR 0xA8] @
     '': ''"

definition fs_t4 :: string where
  \<comment> \<open> GB<LF><U+4F7F><U+7528><U+7387>: \<close>
  "fs_t4 =
     '' GB'' @ [CHR 0x0A, CHR 0xE4, CHR 0xBD, CHR 0xBF, CHR 0xE7, CHR 0x94, CHR 0xA8,
     CHR 0xE7, CHR 0x8E, CHR 0x87] @ '': ''"

definition na_uptime :: string where
  \<comment> \<open><U+65E0><U+6CD5><U+83B7><U+53D6><U+7CFB><U+7EDF><U+8FD0><U+884C><U+65F6><U+95F4><U+3002>\<close>
  "na_uptime =
     [CHR 0xE6, CHR 0x97, CHR 0xA0, CHR 0xE6, CHR 0xB3, CHR 0x95, CHR 0xE8, CHR 0x8E,
     CHR 0xB7, CHR 0xE5, CHR 0x8F, CHR 0x96, CHR 0xE7, CHR 0xB3, CHR 0xBB, CHR 0xE7,
     CHR 0xBB, CHR 0x9F, CHR 0xE8, CHR 0xBF, CHR 0x90, CHR 0xE8, CHR 0xA1, CHR 0x8C,
     CHR 0xE6, CHR 0x97, CHR 0xB6, CHR 0xE9, CHR 0x97, CHR 0xB4, CHR 0xE3, CHR 0x80,
     CHR 0x82]"

definition up_t0 :: string where
  \<comment> \<open><U+7CFB><U+7EDF><U+5DF2><U+8FD0><U+884C>: \<close>
  "up_t0 =
     [CHR 0xE7, CHR 0xB3, CHR 0xBB, CHR 0xE7, CHR 0xBB, CHR 0x9F, CHR 0xE5, CHR 0xB7,
     CHR 0xB2, CHR 0xE8, CHR 0xBF, CHR 0x90, CHR 0xE8, CHR 0xA1, CHR 0x8C] @ '': ''"

definition up_days :: string where
  \<comment> \<open><U+5929> \<close>
  "up_days =
     [CHR 0xE5, CHR 0xA4, CHR 0xA9] @ '' ''"

definition up_hours :: string where
  \<comment> \<open><U+5C0F><U+65F6> \<close>
  "up_hours =
     [CHR 0xE5, CHR 0xB0, CHR 0x8F, CHR 0xE6, CHR 0x97, CHR 0xB6] @ '' ''"

definition up_minutes :: string where
  \<comment> \<open><U+5206><U+949F>\<close>
  "up_minutes =
     [CHR 0xE5, CHR 0x88, CHR 0x86, CHR 0xE9, CHR 0x92, CHR 0x9F]"

definition na_all_b :: string where
  \<comment> \<open><APOS> <U+7684><U+7CFB><U+7EDF><U+7EDF><U+8BA1><U+4FE1><U+606F><U+3002>\<close>
  "na_all_b =
     [CHR 0x27] @ '' '' @ [CHR 0xE7, CHR 0x9A, CHR 0x84, CHR 0xE7, CHR 0xB3, CHR 0xBB,
     CHR 0xE7, CHR 0xBB, CHR 0x9F, CHR 0xE7, CHR 0xBB, CHR 0x9F, CHR 0xE8, CHR 0xAE,
     CHR 0xA1, CHR 0xE4, CHR 0xBF, CHR 0xA1, CHR 0xE6, CHR 0x81, CHR 0xAF, CHR 0xE3,
     CHR 0x80, CHR 0x82]"

definition hdr_all_b :: string where
  \<comment> \<open><APOS> <U+7684><U+7EDF><U+8BA1><U+4FE1><U+606F><U+6C47><U+603B>:<LF>\<close>
  "hdr_all_b =
     [CHR 0x27] @ '' '' @ [CHR 0xE7, CHR 0x9A, CHR 0x84, CHR 0xE7, CHR 0xBB, CHR 0x9F,
     CHR 0xE8, CHR 0xAE, CHR 0xA1, CHR 0xE4, CHR 0xBF, CHR 0xA1, CHR 0xE6, CHR 0x81,
     CHR 0xAF, CHR 0xE6, CHR 0xB1, CHR 0x87, CHR 0xE6, CHR 0x80, CHR 0xBB] @ '':'' @
     [CHR 0x0A]"

definition na_process_count :: string where
  \<comment> \<open><U+65E0><U+6CD5><U+83B7><U+53D6><U+8FDB><U+7A0B><U+7EDF><U+8BA1><U+4FE1><U+606F><U+3002>\<close>
  "na_process_count =
     [CHR 0xE6, CHR 0x97, CHR 0xA0, CHR 0xE6, CHR 0xB3, CHR 0x95, CHR 0xE8, CHR 0x8E,
     CHR 0xB7, CHR 0xE5, CHR 0x8F, CHR 0x96, CHR 0xE8, CHR 0xBF, CHR 0x9B, CHR 0xE7,
     CHR 0xA8, CHR 0x8B, CHR 0xE7, CHR 0xBB, CHR 0x9F, CHR 0xE8, CHR 0xAE, CHR 0xA1,
     CHR 0xE4, CHR 0xBF, CHR 0xA1, CHR 0xE6, CHR 0x81, CHR 0xAF, CHR 0xE3, CHR 0x80,
     CHR 0x82]"

definition na_connections :: string where
  \<comment> \<open><U+65E0><U+6CD5><U+83B7><U+53D6><U+7F51><U+7EDC><U+8FDE><U+63A5><U+7EDF><U+8BA1><U+4FE1><U+606F><U+3002>\<close>
  "na_connections =
     [CHR 0xE6, CHR 0x97, CHR 0xA0, CHR 0xE6, CHR 0xB3, CHR 0x95, CHR 0xE8, CHR 0x8E,
     CHR 0xB7, CHR 0xE5, CHR 0x8F, CHR 0x96, CHR 0xE7, CHR 0xBD, CHR 0x91, CHR 0xE7,
     CHR 0xBB, CHR 0x9C, CHR 0xE8, CHR 0xBF, CHR 0x9E, CHR 0xE6, CHR 0x8E, CHR 0xA5,
     CHR 0xE7, CHR 0xBB, CHR 0x9F, CHR 0xE8, CHR 0xAE, CHR 0xA1, CHR 0xE4, CHR 0xBF,
     CHR 0xA1, CHR 0xE6, CHR 0x81, CHR 0xAF, CHR 0xE3, CHR 0x80, CHR 0x82]"

definition na_ip :: string where
  \<comment> \<open><U+65E0><U+6CD5><U+83B7><U+53D6>IP<U+5730><U+5740><U+4FE1><U+606F><U+3002>\<close>
  "na_ip =
     [CHR 0xE6, CHR 0x97, CHR 0xA0, CHR 0xE6, CHR 0xB3, CHR 0x95, CHR 0xE8, CHR 0x8E,
     CHR 0xB7, CHR 0xE5, CHR 0x8F, CHR 0x96] @ ''IP'' @ [CHR 0xE5, CHR 0x9C, CHR 0xB0,
     CHR 0xE5, CHR 0x9D, CHR 0x80, CHR 0xE4, CHR 0xBF, CHR 0xA1, CHR 0xE6, CHR 0x81,
     CHR 0xAF, CHR 0xE3, CHR 0x80, CHR 0x82]"

definition na_load :: string where
  \<comment> \<open><U+65E0><U+6CD5><U+83B7><U+53D6><U+7CFB><U+7EDF><U+8D1F><U+8F7D><U+4FE1><U+606F><U+3002>\<close>
  "na_load =
     [CHR 0xE6, CHR 0x97, CHR 0xA0, CHR 0xE6, CHR 0xB3, CHR 0x95, CHR 0xE8, CHR 0x8E,
     CHR 0xB7, CHR 0xE5, CHR 0x8F, CHR 0x96, CHR 0xE7, CHR 0xB3, CHR 0xBB, CHR 0xE7,
     CHR 0xBB, CHR 0x9F, CHR 0xE8, CHR 0xB4, CHR 0x9F, CHR 0xE8, CHR 0xBD, CHR 0xBD,
     CHR 0xE4, CHR 0xBF, CHR 0xA1, CHR 0xE6, CHR 0x81, CHR 0xAF, CHR 0xE3, CHR 0x80,
     CHR 0x82]"

definition load_t0 :: string where
  \<comment> \<open><LF><U+7CFB><U+7EDF><U+8D1F><U+8F7D>:<LF>1<U+5206><U+949F>: \<close>
  "load_t0 =
     [CHR 0x0A, CHR 0xE7, CHR 0xB3, CHR 0xBB, CHR 0xE7, CHR 0xBB, CHR 0x9F, CHR 0xE8,
     CHR 0xB4, CHR 0x9F, CHR 0xE8, CHR 0xBD, CHR 0xBD] @ '':'' @ [CHR 0x0A] @ ''1'' @
     [CHR 0xE5, CHR 0x88, CHR 0x86, CHR 0xE9, CHR 0x92, CHR 0x9F] @ '': ''"

definition load_t1 :: string where
  \<comment> \<open><LF>5<U+5206><U+949F>: \<close>
  "load_t1 =
     [CHR 0x0A] @ ''5'' @ [CHR 0xE5, CHR 0x88, CHR 0x86, CHR 0xE9, CHR 0x92, CHR 0x9F] @
     '': ''"

definition load_t2 :: string where
  \<comment> \<open><LF>15<U+5206><U+949F>: \<close>
  "load_t2 =
     [CHR 0x0A] @ ''15'' @ [CHR 0xE5, CHR 0x88, CHR 0x86, CHR 0xE9, CHR 0x92, CHR 0x9F] @
     '': ''"

definition load_t3 :: string where
  \<comment> \<open><LF>CPU<U+6838><U+5FC3><U+6570>: \<close>
  "load_t3 =
     [CHR 0x0A] @ ''CPU'' @ [CHR 0xE6, CHR 0xA0, CHR 0xB8, CHR 0xE5, CHR 0xBF, CHR 0x83,
     CHR 0xE6, CHR 0x95, CHR 0xB0] @ '': ''"

definition na_swap :: string where
  \<comment> \<open><U+65E0><U+6CD5><U+83B7><U+53D6><U+4EA4><U+6362><U+5206><U+533A><U+4FE1><U+606F><U+3002>\<close>
  "na_swap =
     [CHR 0xE6, CHR 0x97, CHR 0xA0, CHR 0xE6, CHR 0xB3, CHR 0x95, CHR 0xE8, CHR 0x8E,
     CHR 0xB7, CHR 0xE5, CHR 0x8F, CHR 0x96, CHR 0xE4, CHR 0xBA, CHR 0xA4, CHR 0xE6,
     CHR 0x8D, CHR 0xA2, CHR 0xE5, CHR 0x88, CHR 0x86, CHR 0xE5, CHR 0x8C, CHR 0xBA,
     CHR 0xE4, CHR 0xBF, CHR 0xA1, CHR 0xE6, CHR 0x81, CHR 0xAF, CHR 0xE3, CHR 0x80,
     CHR 0x82]"

definition swap_t0 :: string where
  \<comment> \<open><LF><U+4EA4><U+6362><U+5206><U+533A><U+4FE1><U+606F>:<LF><U+603B><U+5927><U+5C0F>: \<close>
  "swap_t0 =
     [CHR 0x0A, CHR 0xE4, CHR 0xBA, CHR 0xA4, CHR 0xE6, CHR 0x8D, CHR 0xA2, CHR 0xE5,
     CHR 0x88, CHR 0x86, CHR 0xE5, CHR 0x8C, CHR 0xBA, CHR 0xE4, CHR 0xBF, CHR 0xA1,
     CHR 0xE6, CHR 0x81, CHR 0xAF] @ '':'' @ [CHR 0x0A, CHR 0xE6, CHR 0x80, CHR 0xBB,
     CHR 0xE5, CHR 0xA4, CHR 0xA7, CHR 0xE5, CHR 0xB0, CHR 0x8F] @ '': ''"

definition na_version :: string where
  \<comment> \<open><U+65E0><U+6CD5><U+83B7><U+53D6><U+7248><U+672C><U+4FE1><U+606F><U+3002>\<close>
  "na_version =
     [CHR 0xE6, CHR 0x97, CHR 0xA0, CHR 0xE6, CHR 0xB3, CHR 0x95, CHR 0xE8, CHR 0x8E,
     CHR 0xB7, CHR 0xE5, CHR 0x8F, CHR 0x96, CHR 0xE7, CHR 0x89, CHR 0x88, CHR 0xE6,
     CHR 0x9C, CHR 0xAC, CHR 0xE4, CHR 0xBF, CHR 0xA1, CHR 0xE6, CHR 0x81, CHR 0xAF,
     CHR 0xE3, CHR 0x80, CHR 0x82]"

definition ver_t0 :: string where
  \<comment> \<open><LF>Glances<U+7248><U+672C><U+4FE1><U+606F>:<LF><U+7248><U+672C><U+53F7>: \<close>
  "ver_t0 =
     [CHR 0x0A] @ ''Glances'' @ [CHR 0xE7, CHR 0x89, CHR 0x88, CHR 0xE6, CHR 0x9C, CHR 0xAC,
     CHR 0xE4, CHR 0xBF, CHR 0xA1, CHR 0xE6, CHR 0x81, CHR 0xAF] @ '':'' @ [CHR 0x0A,
     CHR 0xE7, CHR 0x89, CHR 0x88, CHR 0xE6, CHR 0x9C, CHR 0xAC, CHR 0xE5, CHR 0x8F,
     CHR 0xB7] @ '': ''"

definition ver_t1 :: string where
  \<comment> \<open><LF><U+7CFB><U+7EDF>: \<close>
  "ver_t1 =
     [CHR 0x0A, CHR 0xE7, CHR 0xB3, CHR 0xBB, CHR 0xE7, CHR 0xBB, CHR 0x9F] @ '': ''"

definition ver_t2 :: string where
  \<comment> \<open><LF>Python<U+7248><U+672C>: \<close>
  "ver_t2 =
     [CHR 0x0A] @ ''Python'' @ [CHR 0xE7, CHR 0x89, CHR 0x88, CHR 0xE6, CHR 0x9C, CHR 0xAC] @
     '': ''"

definition na_process_list_b :: string where
  \<comment> \<open><APOS> <U+7684><U+8FDB><U+7A0B><U+5217><U+8868><U+4FE1><U+606F><U+3002>\<close>
  "na_process_list_b =
     [CHR 0x27] @ '' '' @ [CHR 0xE7, CHR 0x9A, CHR 0x84, CHR 0xE8, CHR 0xBF, CHR 0x9B,
     CHR 0xE7, CHR 0xA8, CHR 0x8B, CHR 0xE5, CHR 0x88, CHR 0x97, CHR 0xE8, CHR 0xA1,
     CHR 0xA8, CHR 0xE4, CHR 0xBF, CHR 0xA1, CHR 0xE6, CHR 0x81, CHR 0xAF, CHR 0xE3,
     CHR 0x80, CHR 0x82]"

definition pl_head :: string where
  \<comment> \<open><U+8FDB><U+7A0B><U+4FE1><U+606F>:<LF>\<close>
  "pl_head =
     [CHR 0xE8, CHR 0xBF, CHR 0x9B, CHR 0xE7, CHR 0xA8, CHR 0x8B, CHR 0xE4, CHR 0xBF,
     CHR 0xA1, CHR 0xE6, CHR 0x81, CHR 0xAF] @ '':'' @ [CHR 0x0A]"

definition pl_t0 :: string where
  \<comment> \<open><LF>PID: \<close>
  "pl_t0 =
     [CHR 0x0A] @ ''PID: ''"

definition pl_t1 :: string where
  \<comment> \<open><LF><U+547D><U+4EE4><U+884C>: \<close>
  "pl_t1 =
     [CHR 0x0A, CHR 0xE5, CHR 0x91, CHR 0xBD, CHR 0xE4, CHR 0xBB, CHR 0xA4, CHR 0xE8,
     CHR 0xA1, CHR 0x8C] @ '': ''"

definition pl_t2 :: string where
  \<comment> \<open><LF><U+7528><U+6237><U+540D>: \<close>
  "pl_t2 =
     [CHR 0x0A, CHR 0xE7, CHR 0x94, CHR 0xA8, CHR 0xE6, CHR 0x88, CHR 0xB7, CHR 0xE5,
     CHR 0x90, CHR 0x8D] @ '': ''"

definition pl_t3 :: string where
  \<comment> \<open><LF><U+7EBF><U+7A0B><U+6570>: \<close>
  "pl_t3 =
     [CHR 0x0A, CHR 0xE7, CHR 0xBA, CHR 0xBF, CHR 0xE7, CHR 0xA8, CHR 0x8B, CHR 0xE6,
     CHR 0x95, CHR 0xB0] @ '': ''"

subsection \<open>The handlers\<close>

text \<open>
  A handler takes the globals, the remote agents and its \<open>server_id\<close> argument
  (\<open>None\<close> when omitted), and returns its text or the exception that leaves it.
\<close>

definition get_system_info ::
  "globals \<Rightarrow> (string \<Rightarrow> json option) \<Rightarrow> string option \<Rightarrow> string result" where
  "get_system_info g http_get server_id =
     catch_ValueError
       (bind_e (make_glances_request g http_get ''system'' server_id) (\<lambda>data.
          if \<not> truthy data
          then Inr (na_server_a @ str_opt server_id @ na_system_b)
          else render
            [bind_e (servers_item g server_id)
               (\<lambda>srv. Inr (hdr_server_a @ srv_name srv @ hdr_system_b)),
             format_system_info data]))"

definition get_process_info ::
  "globals \<Rightarrow> (string \<Rightarrow> json option) \<Rightarrow> string option \<Rightarrow> string result" where
  "get_process_info g http_get server_id =
     catch_ValueError
       (bind_e (make_glances_request g http_get ''processlist'' server_id) (\<lambda>data.
          if \<not> truthy data
          then Inr (na_server_a @ str_opt server_id @ na_process_b)
          else render
            [bind_e (servers_item g server_id)
               (\<lambda>srv. Inr (hdr_server_a @ srv_name srv @ hdr_process_b)),
             format_process_info data]))"

definition get_network_info ::
  "globals \<Rightarrow> (string \<Rightarrow> json option) \<Rightarrow> string option \<Rightarrow> string result" where
  "get_network_info g http_get server_id =
     bind_e (make_glances_request g http_get ''network'' server_id) (\<lambda>data.
       if \<not> truthy data then Inr na_network
       else bind_e (py_iter data) (\<lambda>items.
         render (lit net_head #
           map (\<lambda>interface. render
             [lit net_t0, fld (py_get interface ''interface_name'' (JStr ''unknown'')),
              lit net_t1,
              fld_div2f (py_get interface ''speed'' (JInt 0)) [1024 * 1024 * 1024],
              lit net_t2,
              bind_e (py_get interface ''bytes_recv_rate_per_sec'' (JInt 0)) format_bytes_rate,
              lit net_t3,
              bind_e (py_get interface ''bytes_sent_rate_per_sec'' (JInt 0)) format_bytes_rate,
              lit net_t4,
              bind_e (py_get interface ''bytes_recv_gauge'' (JInt 0)) format_bytes,
              lit net_t5,
              bind_e (py_get interface ''bytes_sent_gauge'' (JInt 0)) format_bytes,
              lit txt_nl]) items)))"

definition get_alert_info ::
  "globals \<Rightarrow> (string \<Rightarrow> json option) \<Rightarrow> string option \<Rightarrow> string result" where
  "get_alert_info g http_get server_id =
     bind_e (make_glances_request g http_get ''alert'' server_id) (\<lambda>data.
       if data = JNull then Inr na_alert
       else format_alert_info data)"

definition clear_all_alerts ::
  "globals \<Rightarrow> (string \<Rightarrow> bool) \<Rightarrow> string option \<Rightarrow> string result" where
  "clear_all_alerts g http_post server_id =
     bind_e (make_glances_post_request g http_post ''events/clear/all'' server_id) (\<lambda>success.
       Inr (if success then clear_ok else clear_failed))"

definition get_cpu_info ::
  "globals \<Rightarrow> (string \<Rightarrow> json option) \<Rightarrow> string option \<Rightarrow> string result" where
  "get_cpu_info g http_get server_id =
     bind_e (make_glances_request g http_get ''cpu'' server_id) (\<lambda>data.
       if \<not> truthy data then Inr na_cpu
       else format_cpu_info data)"

definition get_memory_info ::
  "globals \<Rightarrow> (string \<Rightarrow> json option) \<Rightarrow> string option \<Rightarrow> string result" where
  "get_memory_info g http_get server_id =
     bind_e (make_glances_request g http_get ''mem'' server_id) (\<lambda>data.
       if \<not> truthy data then Inr na_memory
       else format_memory_info data)"

definition get_disk_io_info ::
  "globals \<Rightarrow> (string \<Rightarrow> json option) \<Rightarrow> string option \<Rightarrow> string result" where
  "get_disk_io_info g http_get server_id =
     bind_e (make_glances_request g http_get ''diskio'' server_id) (\<lambda>data.
       if \<not> truthy data then Inr na_diskio
       else format_disk_info data)"

definition get_plugins_list ::
  "globals \<Rightarrow> (string \<Rightarrow> json option) \<Rightarrow> string option \<Rightarrow> string result" where
  "get_plugins_list g http_get server_id =
     bind_e (make_glances_request g http_get ''pluginslist'' server_id) (\<lambda>data.
       if \<not> truthy data then Inr na_plugins
       else render [lit plugins_head, py_join '', '' data])"

definition get_sensors_info ::
  "globals \<Rightarrow> (string \<Rightarrow> json option) \<Rightarrow> string option \<Rightarrow> string result" where
  "get_sensors_info g http_get server_id =
     bind_e (make_glances_request g http_get ''sensors'' server_id) (\<lambda>data.
       if \<not> truthy data then Inr na_sensors
       else format_sensors_info data)"

definition get_docker_info ::
  "globals \<Rightarrow> (string \<Rightarrow> json option) \<Rightarrow> string option \<Rightarrow> string result" where
  "get_docker_info g http_get server_id =
     bind_e (make_glances_request g http_get ''containers'' server_id) (\<lambda>data.
       if \<not> truthy data then Inr na_docker
       else format_docker_info data)"

definition get_gpu_info ::
  "globals \<Rightarrow> (string \<Rightarrow> json option) \<Rightarrow> string option \<Rightarrow> string result" where
  "get_gpu_info g http_get server_id =
     bind_e (make_glances_request g http_get ''gpu'' server_id) (\<lambda>data.
       if \<not> truthy data then Inr na_gpu
       else format_gpu_info data)"

definition get_quicklook ::
  "globals \<Rightarrow> (string \<Rightarrow> json option) \<Rightarrow> string option \<Rightarrow> string result" where
  "get_quicklook g http_get server_id =
     bind_e (make_glances_request g http_get ''quicklook'' server_id) (\<lambda>data.
       if \<not> truthy data then Inr na_quicklook
       else render
         [lit ql_t0, fld (py_get data ''cpu'' (JInt 0)),
          lit ql_t1, fld (py_get data ''mem'' (JInt 0)),
          lit ql_t2, fld (py_get data ''swap'' (JInt 0)),
          lit ql_t3, fld (py_get data ''load'' (JStr ''0 0 0'')),
          lit txt_nl])"

definition get_fs_info ::
  "globals \<Rightarrow> (string \<Rightarrow> json option) \<Rightarrow> string option \<Rightarrow> string result" where
  "get_fs_info g http_get server_id =
     bind_e (make_glances_request g http_get ''fs'' server_id) (\<lambda>data.
       if \<not> truthy data then Inr na_fs
       else bind_e (py_iter data) (\<lambda>items.
         render (lit fs_head #
           map (\<lambda>fs. render
             [lit fs_t0, fld (py_get fs ''mnt_point'' (JStr ''Unknown'')),
              lit txt_lbl_device, fld (py_get fs ''device_name'' (JStr ''Unknown'')),
              lit fs_t1, fld_div2f (py_get fs ''size'' (JInt 0)) [1024, 1024, 1024],
              lit fs_t2, fld_div2f (py_get fs ''used'' (JInt 0)) [1024, 1024, 1024],
              lit fs_t3, fld_div2f (py_get fs ''free'' (JInt 0)) [1024, 1024, 1024],
              lit fs_t4, fld (py_get fs ''percent'' (JInt 0)),
              lit txt_pct_nl]) items)))"

definition get_uptime ::
  "globals \<Rightarrow> (string \<Rightarrow> json option) \<Rightarrow> string option \<Rightarrow> string result" where
  "get_uptime g http_get server_id =
     bind_e (make_glances_request g http_get ''uptime'' server_id) (\<lambda>data.
       if \<not> truthy data then Inr na_uptime
       else bind_e (py_int data) (\<lambda>seconds.
         let days = seconds div 86400;
             hours = (seconds mod 86400) div 3600;
             minutes = (seconds mod 3600) div 60
         in Inr (up_t0 @ string_of_int days @ up_days
                 @ string_of_int hours @ up_hours
                 @ string_of_int minutes @ up_minutes)))"

definition get_all_stats ::
  "globals \<Rightarrow> (string \<Rightarrow> json option) \<Rightarrow> string option \<Rightarrow> string result" where
  "get_all_stats g http_get server_id =
     catch_ValueError
       (bind_e (make_glances_request g http_get ''all'' server_id) (\<lambda>data.
          if \<not> truthy data
          then Inr (na_server_a @ str_opt server_id @ na_all_b)
          else render
            [bind_e (servers_item g server_id)
               (\<lambda>srv. Inr (hdr_server_a @ srv_name srv @ hdr_all_b)),
             get_system_info g http_get server_id,
             lit txt_nl, get_cpu_info g http_get server_id,
             lit txt_nl, get_memory_info g http_get server_id,
             lit txt_nl, get_disk_io_info g http_get server_id,
             lit txt_nl, get_network_info g http_get server_id,
             lit txt_nl, get_uptime g http_get server_id]))"

definition get_process_count ::
  "globals \<Rightarrow> (string \<Rightarrow> json option) \<Rightarrow> string option \<Rightarrow> string result" where
  "get_process_count g http_get server_id =
     bind_e (make_glances_request g http_get ''processcount'' server_id) (\<lambda>data.
       if \<not> truthy data then Inr na_process_count
       else format_process_count data)"

definition get_connections_stats ::
  "globals \<Rightarrow> (string \<Rightarrow> json option) \<Rightarrow> string option \<Rightarrow> string result" where
  "get_connections_stats g http_get server_id =
     bind_e (make_glances_request g http_get ''connections'' server_id) (\<lambda>data.
       if \<not> truthy data then Inr na_connections
       else format_connections_info data)"

definition get_ip_addresses ::
  "globals \<Rightarrow> (string \<Rightarrow> json option) \<Rightarrow> string option \<Rightarrow> string result" where
  "get_ip_addresses g http_get server_id =
     bind_e (make_glances_request g http_get ''ip'' server_id) (\<lambda>data.
       if \<not> truthy data then Inr na_ip
       else format_ip_info data)"

definition get_load_average ::
  "globals \<Rightarrow> (string \<Rightarrow> json option) \<Rightarrow> string option \<Rightarrow> string result" where
  "get_load_average g http_get server_id =
     bind_e (make_glances_request g http_get ''load'' server_id) (\<lambda>data.
       if \<not> truthy data then Inr na_load
       else render
         [lit load_t0, fld_2f (py_get data ''min1'' (JInt 0)),
          lit load_t1, fld_2f (py_get data ''min5'' (JInt 0)),
          lit load_t2, fld_2f (py_get data ''min15'' (JInt 0)),
          lit load_t3, fld (py_get data ''cpucore'' (JInt 0)),
          lit txt_nl])"

definition get_swap_info ::
  "globals \<Rightarrow> (string \<Rightarrow> json option) \<Rightarrow> string option \<Rightarrow> string result" where
  "get_swap_info g http_get server_id =
     bind_e (make_glances_request g http_get ''memswap'' server_id) (\<lambda>data.
       if \<not> truthy data then Inr na_swap
       else render
         [lit swap_t0, fld_div2f (py_get data ''total'' (JInt 0)) [1024, 1024],
          lit txt_mb_used, fld_div2f (py_get data ''used'' (JInt 0)) [1024, 1024],
          lit txt_mb_free, fld_div2f (py_get data ''free'' (JInt 0)) [1024, 1024],
          lit txt_mb_pct, fld (py_get data ''percent'' (JInt 0)),
          lit txt_pct_nl])"

definition get_version_info ::
  "globals \<Rightarrow> (string \<Rightarrow> json option) \<Rightarrow> string option \<Rightarrow> string result" where
  "get_version_info g http_get server_id =
     bind_e (make_glances_request g http_get ''version'' server_id) (\<lambda>data.
       if \<not> truthy data then Inr na_version
       else render
         [lit ver_t0, fld (py_get data ''version'' (JStr ''Unknown'')),
          lit ver_t1, fld (py_get data ''system'' (JStr ''Unknown'')),
          lit ver_t2, fld (py_get data ''python_version'' (JStr ''Unknown'')),
          lit txt_nl])"

definition get_process_list ::
  "globals \<Rightarrow> (string \<Rightarrow> json option) \<Rightarrow> string option \<Rightarrow> string result" where
  "get_process_list g http_get server_id =
     bind_e (make_glances_request g http_get ''processlist'' server_id) (\<lambda>data.
       if \<not> truthy data
       then Inr (na_server_a @ str_opt server_id @ na_process_list_b)
       else bind_e (py_iter data) (\<lambda>items.
         render (lit pl_head #
           map (\<lambda>proc. render
             [lit pl_t0, fld (py_get proc ''pid'' (JStr ''Unknown'')),
              lit txt_lbl_name, fld (py_get proc ''name'' (JStr ''Unknown'')),
              lit pl_t1, fld (py_get proc ''cmdline'' (JStr ''Unknown'')),
              lit pl_t2, fld (py_get proc ''username'' (JStr ''Unknown'')),
              lit pl_t3, fld (py_get proc ''num_threads'' (JInt 0)),
              lit txt_cpu_usage, fld (py_get proc ''cpu_percent'' (JInt 0)),
              lit txt_pct_mem_usage, fld (py_get proc ''memory_percent'' (JInt 0)),
              lit txt_pct_nl]) items)))"

section \<open>Registry invariant\<close>

text \<open>The invariant of the data model: the default id references an entry of the
  mapping.\<close>

definition default_registered :: "globals \<Rightarrow> bool" where
  "default_registered g = (map_of (SERVERS g) (default_id g) \<noteq> None)"

section \<open>Expected shapes of the payloads\<close>













section \<open>Example configuration\<close>

text \<open>A registry with the single server \<open>server1\<close>, which is also the default at
  start-up, and an agent that answers every endpoint.\<close>

definition example_globals :: globals where
  "example_globals =
     initial_globals
       [(''server1'', \<lparr>srv_name = ''web'', srv_url = ''http://h:61208/api/4'', srv_description = ''test box''\<rparr>)]"

definition example_http :: "string \<Rightarrow> json option" where
  "example_http url =
     (if url = ''http://h:61208/api/4/uptime'' then Some (JInt 90000)
      else if url = ''http://h:61208/api/4/network'' then Some (JList [JDict []])
      else Some (JDict [(''sda'', JDict [])]))"

text \<open>An agent that answers no request: every GET raises.\<close>

definition http_down :: "string \<Rightarrow> json option" where
  "http_down url = None"

text \<open>An agent whose every body is empty: 0 seconds of uptime, an empty list elsewhere.\<close>

definition http_empty :: "string \<Rightarrow> json option" where
  "http_empty url =
     (if url = ''http://h:61208/api/4/uptime'' then Some (JInt 0) else Some (JList []))"


text \<open>The report of \<open>get_uptime\<close> for 90000 seconds: 1 day, 1 hour, 0 minutes.\<close>

definition up_example_90000 :: string where
  \<comment> \<open><U+7CFB><U+7EDF><U+5DF2><U+8FD0><U+884C>: 1<U+5929> 1<U+5C0F><U+65F6> 0<U+5206><U+949F>\<close>
  "up_example_90000 =
     [CHR 0xE7, CHR 0xB3, CHR 0xBB, CHR 0xE7, CHR 0xBB, CHR 0x9F, CHR 0xE5, CHR 0xB7,
     CHR 0xB2, CHR 0xE8, CHR 0xBF, CHR 0x90, CHR 0xE8, CHR 0xA1, CHR 0x8C] @ '': 1'' @
     [CHR 0xE5, CHR 0xA4, CHR 0xA9] @ '' 1'' @ [CHR 0xE5, CHR 0xB0, CHR 0x8F, CHR 0xE6,
     CHR 0x97, CHR 0xB6] @ '' 0'' @ [CHR 0xE5, CHR 0x88, CHR 0x86, CHR 0xE9, CHR 0x92,
     CHR 0x9F]"

section \<open>Evaluation rules\<close>

lemma string_of_nat_digit: "n < 10 \<Longrightarrow> string_of_nat n = [digit_char n]"
  by (simp add: string_of_nat.simps)

lemma string_of_nat_step:
  "\<not> n < 10 \<Longrightarrow> string_of_nat n = string_of_nat (n div 10) @ [digit_char (n mod 10)]"
  by (subst string_of_nat.simps) simp

lemma floor_rat_numeral: "\<lfloor>numeral a / numeral b :: rat\<rfloor> = numeral a div numeral b"
  using floor_divide_of_int_eq [of "numeral a" "numeral b", where ?'a = rat] by simp

lemma floor_rat_one: "\<lfloor>1 / numeral b :: rat\<rfloor> = 1 div numeral b"
  using floor_divide_of_int_eq [of 1 "numeral b", where ?'a = rat] by simp

lemmas number_simps =
  string_of_nat_digit string_of_nat_step digit_char_def string_of_int_def fmt2f_def
  round_half_even_def Let_def num_of_def bind_e_def floor_rat_numeral floor_rat_one

lemma small_values:
  "string_of_int 0 = ''0''"
  "fmt2f 0 = ''0.00''"
  "fmt2f 2 = ''2.00''"
  "fmt2f (1 / 512) = ''0.00''"
  "fmt2f (1 / 524288) = ''0.00''"
  by (simp_all add: number_simps)

section \<open>Resolution and fetching\<close>

lemma make_glances_request_resolved:
  assumes "get_server_url g server_id = Inr base"
  shows "make_glances_request g http_get ep server_id = Inr (get_json http_get (base @ ''/'' @ ep))"
  using assms
  by (cases server_id)
     (simp_all add: make_glances_request_def get_server_url_def get_default_server_id_def
        bind_e_def Let_def split: option.splits)

lemma make_glances_request_unresolved:
  assumes "get_server_url g server_id = Inl e"
  shows "make_glances_request g http_get ep server_id = Inl e"
  using assms
  by (cases server_id)
     (simp_all add: make_glances_request_def get_server_url_def get_default_server_id_def
        bind_e_def Let_def split: option.splits)

lemma get_server_url_unknown:
  assumes "map_of (SERVERS g) sid = None"
  shows "get_server_url g (Some sid) = Inl (ValueError (err_no_server @ sid))"
  using assms by (simp add: get_server_url_def)

lemma get_server_url_known:
  assumes "map_of (SERVERS g) sid = Some srv"
  shows "get_server_url g (Some sid) = Inr (srv_url srv)"
  using assms by (simp add: get_server_url_def)

lemma get_json_absent: "get_json (\<lambda>u. None) url = JNull"
  by (simp add: get_json_def)

subsection \<open>A payload that is not truthy\<close>

lemma falsy_system:
  assumes "get_server_url g sid = Inr base" and "\<not> truthy (get_json http_get (base @ ''/system''))"
  shows "get_system_info g http_get sid = Inr (na_server_a @ str_opt sid @ na_system_b)"
  using assms
  by (simp add: get_system_info_def make_glances_request_resolved bind_e_def catch_ValueError_def)

lemma falsy_process:
  assumes "get_server_url g sid = Inr base" and "\<not> truthy (get_json http_get (base @ ''/processlist''))"
  shows "get_process_info g http_get sid = Inr (na_server_a @ str_opt sid @ na_process_b)"
  using assms
  by (simp add: get_process_info_def make_glances_request_resolved bind_e_def catch_ValueError_def)

lemma falsy_all:
  assumes "get_server_url g sid = Inr base" and "\<not> truthy (get_json http_get (base @ ''/all''))"
  shows "get_all_stats g http_get sid = Inr (na_server_a @ str_opt sid @ na_all_b)"
  using assms
  by (simp add: get_all_stats_def make_glances_request_resolved bind_e_def catch_ValueError_def)

lemma falsy_process_list:
  assumes "get_server_url g sid = Inr base" and "\<not> truthy (get_json http_get (base @ ''/processlist''))"
  shows "get_process_list g http_get sid = Inr (na_server_a @ str_opt sid @ na_process_list_b)"
  using assms by (simp add: get_process_list_def make_glances_request_resolved bind_e_def)

lemma falsy_network:
  assumes "get_server_url g sid = Inr base" and "\<not> truthy (get_json http_get (base @ ''/network''))"
  shows "get_network_info g http_get sid = Inr na_network"
  using assms by (simp add: get_network_info_def make_glances_request_resolved bind_e_def)

lemma falsy_cpu:
  assumes "get_server_url g sid = Inr base" and "\<not> truthy (get_json http_get (base @ ''/cpu''))"
  shows "get_cpu_info g http_get sid = Inr na_cpu"
  using assms by (simp add: get_cpu_info_def make_glances_request_resolved bind_e_def)

lemma falsy_memory:
  assumes "get_server_url g sid = Inr base" and "\<not> truthy (get_json http_get (base @ ''/mem''))"
  shows "get_memory_info g http_get sid = Inr na_memory"
  using assms by (simp add: get_memory_info_def make_glances_request_resolved bind_e_def)

lemma falsy_diskio:
  assumes "get_server_url g sid = Inr base" and "\<not> truthy (get_json http_get (base @ ''/diskio''))"
  shows "get_disk_io_info g http_get sid = Inr na_diskio"
  using assms by (simp add: get_disk_io_info_def make_glances_request_resolved bind_e_def)

lemma falsy_plugins:
  assumes "get_server_url g sid = Inr base" and "\<not> truthy (get_json http_get (base @ ''/pluginslist''))"
  shows "get_plugins_list g http_get sid = Inr na_plugins"
  using assms by (simp add: get_plugins_list_def make_glances_request_resolved bind_e_def)

lemma falsy_sensors:
  assumes "get_server_url g sid = Inr base" and "\<not> truthy (get_json http_get (base @ ''/sensors''))"
  shows "get_sensors_info g http_get sid = Inr na_sensors"
  using assms by (simp add: get_sensors_info_def make_glances_request_resolved bind_e_def)

lemma falsy_docker:
  assumes "get_server_url g sid = Inr base" and "\<not> truthy (get_json http_get (base @ ''/containers''))"
  shows "get_docker_info g http_get sid = Inr na_docker"
  using assms by (simp add: get_docker_info_def make_glances_request_resolved bind_e_def)

lemma falsy_gpu:
  assumes "get_server_url g sid = Inr base" and "\<not> truthy (get_json http_get (base @ ''/gpu''))"
  shows "get_gpu_info g http_get sid = Inr na_gpu"
  using assms by (simp add: get_gpu_info_def make_glances_request_resolved bind_e_def)

lemma falsy_quicklook:
  assumes "get_server_url g sid = Inr base" and "\<not> truthy (get_json http_get (base @ ''/quicklook''))"
  shows "get_quicklook g http_get sid = Inr na_quicklook"
  using assms by (simp add: get_quicklook_def make_glances_request_resolved bind_e_def)

lemma falsy_fs:
  assumes "get_server_url g sid = Inr base" and "\<not> truthy (get_json http_get (base @ ''/fs''))"
  shows "get_fs_info g http_get sid = Inr na_fs"
  using assms by (simp add: get_fs_info_def make_glances_request_resolved bind_e_def)

lemma falsy_uptime:
  assumes "get_server_url g sid = Inr base" and "\<not> truthy (get_json http_get (base @ ''/uptime''))"
  shows "get_uptime g http_get sid = Inr na_uptime"
  using assms by (simp add: get_uptime_def make_glances_request_resolved bind_e_def)

lemma falsy_process_count:
  assumes "get_server_url g sid = Inr base" and "\<not> truthy (get_json http_get (base @ ''/processcount''))"
  shows "get_process_count g http_get sid = Inr na_process_count"
  using assms by (simp add: get_process_count_def make_glances_request_resolved bind_e_def)

lemma falsy_connections:
  assumes "get_server_url g sid = Inr base" and "\<not> truthy (get_json http_get (base @ ''/connections''))"
  shows "get_connections_stats g http_get sid = Inr na_connections"
  using assms by (simp add: get_connections_stats_def make_glances_request_resolved bind_e_def)

lemma falsy_ip:
  assumes "get_server_url g sid = Inr base" and "\<not> truthy (get_json http_get (base @ ''/ip''))"
  shows "get_ip_addresses g http_get sid = Inr na_ip"
  using assms by (simp add: get_ip_addresses_def make_glances_request_resolved bind_e_def)

lemma falsy_load:
  assumes "get_server_url g sid = Inr base" and "\<not> truthy (get_json http_get (base @ ''/load''))"
  shows "get_load_average g http_get sid = Inr na_load"
  using assms by (simp add: get_load_average_def make_glances_request_resolved bind_e_def)

lemma falsy_swap:
  assumes "get_server_url g sid = Inr base" and "\<not> truthy (get_json http_get (base @ ''/memswap''))"
  shows "get_swap_info g http_get sid = Inr na_swap"
  using assms by (simp add: get_swap_info_def make_glances_request_resolved bind_e_def)

lemma falsy_version:
  assumes "get_server_url g sid = Inr base" and "\<not> truthy (get_json http_get (base @ ''/version''))"
  shows "get_version_info g http_get sid = Inr na_version"
  using assms by (simp add: get_version_info_def make_glances_request_resolved bind_e_def)

lemma alert_absent:
  assumes "get_server_url g sid = Inr base" and "get_json http_get (base @ ''/alert'') = JNull"
  shows "get_alert_info g http_get sid = Inr na_alert"
  using assms by (simp add: get_alert_info_def make_glances_request_resolved bind_e_def)

lemma alert_falsy_present:
  assumes "get_server_url g sid = Inr base" and "get_json http_get (base @ ''/alert'') = d"
    and "d \<noteq> JNull" and "\<not> truthy d"
  shows "get_alert_info g http_get sid = Inr alert_none"
  using assms
  by (simp add: get_alert_info_def make_glances_request_resolved bind_e_def format_alert_info_def)

lemma example_globals_url:
  "get_server_url example_globals None = Inr ''http://h:61208/api/4''"
  "get_server_url example_globals (Some ''server1'') = Inr ''http://h:61208/api/4''"
  "map_of (SERVERS example_globals) ''nope'' = None"
  by (simp_all add: example_globals_def initial_globals_def get_server_url_def
        get_default_server_id_def)

section \<open>Byte formatting\<close>

text \<open>
  C8. The byte-formatting function maps 0 to "0.00 B", 1023 to "1023.00 B", 1024 to
  "1.00 KB", 1048576 to "1.00 MB" and 1125899906842624 to "1.00 PB".
\<close>

theorem format_bytes_examples:
  "format_bytes (JInt 0) = Inr ''0.00 B''
   \<and> format_bytes (JInt 1023) = Inr ''1023.00 B''
   \<and> format_bytes (JInt 1024) = Inr ''1.00 KB''
   \<and> format_bytes (JInt 1048576) = Inr ''1.00 MB''
   \<and> format_bytes (JInt 1125899906842624) = Inr ''1.00 PB''"
  by (simp add: format_bytes_def number_simps)

section \<open>Absent and empty payloads\<close>

lemma get_json_down: "get_json http_down url = JNull"
  by (simp add: get_json_def http_down_def)




text \<open>
  C10. The telemetry handlers test the payload for truthiness: when the body of a
  successful response is not truthy (an empty object, an empty list, the number 0), the
  handler returns the same "unavailable" message as for a failed request; so does
  \<open>get_uptime\<close> for an uptime of 0 seconds. \<open>get_alert_info\<close> tests for \<open>None\<close> only:
  an empty alert list gives the "no alerts" message, a failed request the "unavailable"
  message, and the two differ.
\<close>

theorem falsy_payload_unavailable:
  assumes "get_server_url g server_id = Inr base"
  shows "\<not> truthy (JDict []) \<and> \<not> truthy (JList []) \<and> \<not> truthy (JInt 0)
     \<and> (\<not> truthy (get_json http_get (base @ ''/system''))
        \<longrightarrow> get_system_info g http_get server_id = Inr (na_server_a @ str_opt server_id @ na_system_b)
          \<and> get_system_info g http_down server_id = Inr (na_server_a @ str_opt server_id @ na_system_b))
     \<and> (\<not> truthy (get_json http_get (base @ ''/processlist''))
        \<longrightarrow> get_process_info g http_get server_id = Inr (na_server_a @ str_opt server_id @ na_process_b)
          \<and> get_process_info g http_down server_id = Inr (na_server_a @ str_opt server_id @ na_process_b))
     \<and> (\<not> truthy (get_json http_get (base @ ''/network''))
        \<longrightarrow> get_network_info g http_get server_id = Inr na_network
          \<and> get_network_info g http_down server_id = Inr na_network)
     \<and> (\<not> truthy (get_json http_get (base @ ''/cpu''))
        \<longrightarrow> get_cpu_info g http_get server_id = Inr na_cpu
          \<and> get_cpu_info g http_down server_id = Inr na_cpu)
     \<and> (\<not> truthy (get_json http_get (base @ ''/mem''))
        \<longrightarrow> get_memory_info g http_get server_id = Inr na_memory
          \<and> get_memory_info g http_down server_id = Inr na_memory)
     \<and> (\<not> truthy (get_json http_get (base @ ''/diskio''))
        \<longrightarrow> get_disk_io_info g http_get server_id = Inr na_diskio
          \<and> get_disk_io_info g http_down server_id = Inr na_diskio)
     \<and> (\<not> truthy (get_json http_get (base @ ''/pluginslist''))
        \<longrightarrow> get_plugins_list g http_get server_id = Inr na_plugins
          \<and> get_plugins_list g http_down server_id = Inr na_plugins)
     \<and> (\<not> truthy (get_json http_get (base @ ''/sensors''))
        \<longrightarrow> get_sensors_info g http_get server_id = Inr na_sensors
          \<and> get_sensors_info g http_down server_id = Inr na_sensors)
     \<and> (\<not> truthy (get_json http_get (base @ ''/containers''))
        \<longrightarrow> get_docker_info g http_get server_id = Inr na_docker
          \<and> get_docker_info g http_down server_id = Inr na_docker)
     \<and> (\<not> truthy (get_json http_get (base @ ''/gpu''))
        \<longrightarrow> get_gpu_info g http_get server_id = Inr na_gpu
          \<and> get_gpu_info g http_down server_id = Inr na_gpu)
     \<and> (\<not> truthy (get_json http_get (base @ ''/quicklook''))
        \<longrightarrow> get_quicklook g http_get server_id = Inr na_quicklook
          \<and> get_quicklook g http_down server_id = Inr na_quicklook)
     \<and> (\<not> truthy (get_json http_get (base @ ''/fs''))
        \<longrightarrow> get_fs_info g http_get server_id = Inr na_fs
          \<and> get_fs_info g http_down server_id = Inr na_fs)
     \<and> (\<not> truthy (get_json http_get (base @ ''/uptime''))
        \<longrightarrow> get_uptime g http_get server_id = Inr na_uptime
          \<and> get_uptime g http_down server_id = Inr na_uptime)
     \<and> (\<not> truthy (get_json http_get (base @ ''/all''))
        \<longrightarrow> get_all_stats g http_get server_id = Inr (na_server_a @ str_opt server_id @ na_all_b)
          \<and> get_all_stats g http_down server_id = Inr (na_server_a @ str_opt server_id @ na_all_b))
     \<and> (\<not> truthy (get_json http_get (base @ ''/processcount''))
        \<longrightarrow> get_process_count g http_get server_id = Inr na_process_count
          \<and> get_process_count g http_down server_id = Inr na_process_count)
     \<and> (\<not> truthy (get_json http_get (base @ ''/connections''))
        \<longrightarrow> get_connections_stats g http_get server_id = Inr na_connections
          \<and> get_connections_stats g http_down server_id = Inr na_connections)
     \<and> (\<not> truthy (get_json http_get (base @ ''/ip''))
        \<longrightarrow> get_ip_addresses g http_get server_id = Inr na_ip
          \<and> get_ip_addresses g http_down server_id = Inr na_ip)
     \<and> (\<not> truthy (get_json http_get (base @ ''/load''))
        \<longrightarrow> get_load_average g http_get server_id = Inr na_load
          \<and> get_load_average g http_down server_id = Inr na_load)
     \<and> (\<not> truthy (get_json http_get (base @ ''/memswap''))
        \<longrightarrow> get_swap_info g http_get server_id = Inr na_swap
          \<and> get_swap_info g http_down server_id = Inr na_swap)
     \<and> (\<not> truthy (get_json http_get (base @ ''/version''))
        \<longrightarrow> get_version_info g http_get server_id = Inr na_version
          \<and> get_version_info g http_down server_id = Inr na_version)
     \<and> (\<not> truthy (get_json http_get (base @ ''/processlist''))
        \<longrightarrow> get_process_list g http_get server_id = Inr (na_server_a @ str_opt server_id @ na_process_list_b)
          \<and> get_process_list g http_down server_id = Inr (na_server_a @ str_opt server_id @ na_process_list_b))
     \<and> (get_json http_get (base @ ''/uptime'') = JInt 0
        \<longrightarrow> get_uptime g http_get server_id = Inr na_uptime)
     \<and> (get_json http_get (base @ ''/alert'') = JList []
        \<longrightarrow> get_alert_info g http_get server_id = Inr alert_none)
     \<and> get_alert_info g http_down server_id = Inr na_alert
     \<and> alert_none \<noteq> na_alert"
proof -
  have names: "alert_none \<noteq> na_alert"
    by (simp add: alert_none_def na_alert_def)
  have alert: "get_alert_info g http_get server_id = Inr alert_none"
    if h: "get_json http_get (base @ ''/alert'') = JList []"
    using alert_falsy_present [OF assms h] by simp
  show ?thesis
    using names alert
    by (simp add: get_json_down alert_absent [OF assms]
          falsy_system [OF assms]
          falsy_process [OF assms]
          falsy_network [OF assms]
          falsy_cpu [OF assms]
          falsy_memory [OF assms]
          falsy_diskio [OF assms]
          falsy_plugins [OF assms]
          falsy_sensors [OF assms]
          falsy_docker [OF assms]
          falsy_gpu [OF assms]
          falsy_quicklook [OF assms]
          falsy_fs [OF assms]
          falsy_uptime [OF assms]
          falsy_all [OF assms]
          falsy_process_count [OF assms]
          falsy_connections [OF assms]
          falsy_ip [OF assms]
          falsy_load [OF assms]
          falsy_swap [OF assms]
          falsy_version [OF assms]
          falsy_process_list [OF assms])
qed

lemma http_empty_falsy: "\<not> truthy (get_json http_empty url)"
  by (simp add: get_json_def http_empty_def)

theorem falsy_payload_unavailable_witness:
  "get_server_url example_globals None = Inr ''http://h:61208/api/4''
   \<and> get_json http_empty (''http://h:61208/api/4'' @ ''/uptime'') = JInt 0
   \<and> get_json http_empty (''http://h:61208/api/4'' @ ''/alert'') = JList []
   \<and> get_uptime example_globals http_empty None = Inr na_uptime
   \<and> get_cpu_info example_globals http_empty None = Inr na_cpu
   \<and> get_cpu_info example_globals http_down None = Inr na_cpu
   \<and> get_alert_info example_globals http_empty None = Inr alert_none"
  using falsy_payload_unavailable [OF example_globals_url(1), of http_empty]
  by (simp add: example_globals_url http_empty_falsy) (simp add: get_json_def http_empty_def)

section \<open>Registry\<close>

lemma add_server_keeps_default:
  "default_registered g \<Longrightarrow> default_registered (snd (add_server g sid name url description))"
  by (auto simp: default_registered_def add_server_def map_of_append split: option.splits)

lemma set_default_server_keeps_default:
  "default_registered g \<Longrightarrow> default_registered (snd (set_default_server g sid))"
  by (auto simp: default_registered_def set_default_server_def set_default_server_id_def
      split: option.splits)

lemma map_of_filter_key:
  "map_of (filter (\<lambda>kv. fst kv \<noteq> k) kvs) k' = (if k' = k then None else map_of kvs k')"
  by (induction kvs) auto

lemma remove_server_keeps_default:
  "default_registered g \<Longrightarrow> sid \<noteq> default_id g
     \<Longrightarrow> default_registered (snd (remove_server g sid))"
  by (simp add: default_registered_def remove_server_def map_of_filter_key)

text \<open>
  C2, at the failing input. The registry of the example holds \<open>server1\<close>, the default
  (the invariant holds). \<open>remove_server\<close> of \<open>server1\<close> succeeds, deletes the entry and
  leaves the default id in place: the default then references no entry, and
  \<open>get_default_server\<close> raises KeyError.
\<close>

theorem remove_default_server_dangling:
  "default_registered example_globals
   \<and> fst (remove_server example_globals ''server1'') = txt_rm_ok @ ''server1'' @ txt_apos
   \<and> default_id (snd (remove_server example_globals ''server1'')) = ''server1''
   \<and> SERVERS (snd (remove_server example_globals ''server1'')) = []
   \<and> \<not> default_registered (snd (remove_server example_globals ''server1''))
   \<and> get_default_server (snd (remove_server example_globals ''server1'')) = Inl KeyError
   \<and> get_server_url (snd (remove_server example_globals ''server1'')) None
       = Inl (ValueError (err_no_server @ ''server1''))"
  by (simp add: default_registered_def remove_server_def example_globals_def
      initial_globals_def get_default_server_def get_default_server_id_def get_server_url_def)

text \<open>
  C7. \<open>set_default_server\<close> on an id that is not registered raises ValueError in
  \<open>set_default_server_id\<close> before anything is written: the handler returns the message
  and the globals (default id and environment tag) are unchanged. On a registered id
  the default id becomes that id, and the URL resolved with the id omitted is the URL
  resolved with the id.
\<close>

theorem set_default_server_spec:
  "(map_of (SERVERS g) sid = None \<longrightarrow>
      set_default_server_id g sid = Inl (ValueError (err_no_server @ sid))
      \<and> set_default_server g sid = (Inr (err_no_server @ sid), g))
   \<and> (map_of (SERVERS g) sid = Some srv \<longrightarrow>
      fst (set_default_server g sid)
        = Inr (txt_default_set @ srv_name srv @ '' ('' @ srv_description srv @ '')'')
      \<and> get_default_server_id (snd (set_default_server g sid)) = sid
      \<and> get_server_url (snd (set_default_server g sid)) None
          = get_server_url (snd (set_default_server g sid)) (Some sid)
      \<and> get_server_url (snd (set_default_server g sid)) None = Inr (srv_url srv))"
  by (simp add: set_default_server_def set_default_server_id_def get_default_server_id_def
      get_server_url_def)

theorem set_default_server_spec_witness:
  "map_of (SERVERS example_globals) ''nope'' = None
   \<and> set_default_server example_globals ''nope'' = (Inr (err_no_server @ ''nope''), example_globals)
   \<and> map_of (SERVERS example_globals) ''server1''
       = Some \<lparr>srv_name = ''web'', srv_url = ''http://h:61208/api/4'', srv_description = ''test box''\<rparr>
   \<and> get_default_server_id (snd (set_default_server example_globals ''server1'')) = ''server1''
   \<and> get_server_url (snd (set_default_server example_globals ''server1'')) None
       = Inr ''http://h:61208/api/4''"
proof -
  have k1: "map_of (SERVERS example_globals) ''nope'' = None"
    by (simp add: example_globals_def initial_globals_def)
  have k2: "map_of (SERVERS example_globals) ''server1''
      = Some \<lparr>srv_name = ''web'', srv_url = ''http://h:61208/api/4'', srv_description = ''test box''\<rparr>"
    by (simp add: example_globals_def initial_globals_def)
  note unknown = set_default_server_spec [of example_globals "''nope''", THEN conjunct1, rule_format, OF k1]
  note known = set_default_server_spec [of example_globals "''server1''", THEN conjunct2, rule_format, OF k2]
  have "get_default_server_id (snd (set_default_server example_globals ''server1'')) = ''server1''"
    using known by blast
  moreover have "get_server_url (snd (set_default_server example_globals ''server1'')) None
      = Inr ''http://h:61208/api/4''"
    using known [THEN conjunct2, THEN conjunct2, THEN conjunct2] by simp
  moreover have "set_default_server example_globals ''nope''
      = (Inr (err_no_server @ ''nope''), example_globals)"
    using unknown by blast
  ultimately show ?thesis
    using k1 k2 by simp
qed

section \<open>Unknown server id\<close>

lemma unknown_id_uncaught:
  assumes "map_of (SERVERS g) sid = None"
  shows "get_network_info g http_get (Some sid) = Inl (ValueError (err_no_server @ sid))"
    and "get_alert_info g http_get (Some sid) = Inl (ValueError (err_no_server @ sid))"
    and "get_cpu_info g http_get (Some sid) = Inl (ValueError (err_no_server @ sid))"
    and "get_memory_info g http_get (Some sid) = Inl (ValueError (err_no_server @ sid))"
    and "get_disk_io_info g http_get (Some sid) = Inl (ValueError (err_no_server @ sid))"
    and "get_plugins_list g http_get (Some sid) = Inl (ValueError (err_no_server @ sid))"
    and "get_sensors_info g http_get (Some sid) = Inl (ValueError (err_no_server @ sid))"
    and "get_docker_info g http_get (Some sid) = Inl (ValueError (err_no_server @ sid))"
    and "get_gpu_info g http_get (Some sid) = Inl (ValueError (err_no_server @ sid))"
    and "get_quicklook g http_get (Some sid) = Inl (ValueError (err_no_server @ sid))"
    and "get_fs_info g http_get (Some sid) = Inl (ValueError (err_no_server @ sid))"
    and "get_uptime g http_get (Some sid) = Inl (ValueError (err_no_server @ sid))"
    and "get_process_count g http_get (Some sid) = Inl (ValueError (err_no_server @ sid))"
    and "get_connections_stats g http_get (Some sid) = Inl (ValueError (err_no_server @ sid))"
    and "get_ip_addresses g http_get (Some sid) = Inl (ValueError (err_no_server @ sid))"
    and "get_load_average g http_get (Some sid) = Inl (ValueError (err_no_server @ sid))"
    and "get_swap_info g http_get (Some sid) = Inl (ValueError (err_no_server @ sid))"
    and "get_version_info g http_get (Some sid) = Inl (ValueError (err_no_server @ sid))"
    and "get_process_list g http_get (Some sid) = Inl (ValueError (err_no_server @ sid))"
    and "clear_all_alerts g http_post (Some sid) = Inl (ValueError (err_no_server @ sid))"
proof -
  note get = make_glances_request_unresolved [OF get_server_url_unknown [OF assms]]
  have post: "make_glances_post_request g http_post ep (Some sid)
      = Inl (ValueError (err_no_server @ sid))" for ep
    by (simp add: make_glances_post_request_def get_server_url_unknown [OF assms] bind_e_def)
  show "get_network_info g http_get (Some sid) = Inl (ValueError (err_no_server @ sid))"
    and "get_alert_info g http_get (Some sid) = Inl (ValueError (err_no_server @ sid))"
    and "get_cpu_info g http_get (Some sid) = Inl (ValueError (err_no_server @ sid))"
    and "get_memory_info g http_get (Some sid) = Inl (ValueError (err_no_server @ sid))"
    and "get_disk_io_info g http_get (Some sid) = Inl (ValueError (err_no_server @ sid))"
    and "get_plugins_list g http_get (Some sid) = Inl (ValueError (err_no_server @ sid))"
    and "get_sensors_info g http_get (Some sid) = Inl (ValueError (err_no_server @ sid))"
    and "get_docker_info g http_get (Some sid) = Inl (ValueError (err_no_server @ sid))"
    and "get_gpu_info g http_get (Some sid) = Inl (ValueError (err_no_server @ sid))"
    and "get_quicklook g http_get (Some sid) = Inl (ValueError (err_no_server @ sid))"
    and "get_fs_info g http_get (Some sid) = Inl (ValueError (err_no_server @ sid))"
    and "get_uptime g http_get (Some sid) = Inl (ValueError (err_no_server @ sid))"
    and "get_process_count g http_get (Some sid) = Inl (ValueError (err_no_server @ sid))"
    and "get_connections_stats g http_get (Some sid) = Inl (ValueError (err_no_server @ sid))"
    and "get_ip_addresses g http_get (Some sid) = Inl (ValueError (err_no_server @ sid))"
    and "get_load_average g http_get (Some sid) = Inl (ValueError (err_no_server @ sid))"
    and "get_swap_info g http_get (Some sid) = Inl (ValueError (err_no_server @ sid))"
    and "get_version_info g http_get (Some sid) = Inl (ValueError (err_no_server @ sid))"
    and "get_process_list g http_get (Some sid) = Inl (ValueError (err_no_server @ sid))"
    and "clear_all_alerts g http_post (Some sid) = Inl (ValueError (err_no_server @ sid))"
    by (simp_all add: get post bind_e_def clear_all_alerts_def
        get_network_info_def get_alert_info_def get_cpu_info_def get_memory_info_def
        get_disk_io_info_def get_plugins_list_def get_sensors_info_def get_docker_info_def
        get_gpu_info_def get_quicklook_def get_fs_info_def get_uptime_def
        get_process_count_def get_connections_stats_def get_ip_addresses_def get_load_average_def
        get_swap_info_def get_version_info_def get_process_list_def)
qed

lemma unknown_id_caught:
  assumes "map_of (SERVERS g) sid = None"
  shows "get_system_info g http_get (Some sid) = Inr (err_no_server @ sid)"
    and "get_process_info g http_get (Some sid) = Inr (err_no_server @ sid)"
    and "get_all_stats g http_get (Some sid) = Inr (err_no_server @ sid)"
    and "fst (set_default_server g sid) = Inr (err_no_server @ sid)"
  using assms
  by (simp_all add: make_glances_request_unresolved [OF get_server_url_unknown [OF assms]]
      bind_e_def catch_ValueError_def get_system_info_def get_process_info_def get_all_stats_def
      set_default_server_def set_default_server_id_def)

text \<open>
  C1, at the failing inputs. With a server id that is not registered, \<open>get_cpu_info\<close>
  lets the ValueError of the resolution leave the handler, where \<open>get_system_info\<close>
  catches it and returns its message. With the id omitted and data present,
  \<open>get_system_info\<close> reads \<^verbatim>\<open>SERVERS[None]\<close> and lets the KeyError leave the handler.
\<close>

theorem unknown_server_id_raises:
  "get_cpu_info example_globals http_down (Some ''nope'') = Inl (ValueError (err_no_server @ ''nope''))
   \<and> get_system_info example_globals http_down (Some ''nope'') = Inr (err_no_server @ ''nope'')
   \<and> get_system_info example_globals example_http None = Inl KeyError"
proof -
  have unresolved: "make_glances_request example_globals http_down ep (Some ''nope'')
      = Inl (ValueError (err_no_server @ ''nope''))" for ep
    by (rule make_glances_request_unresolved [OF get_server_url_unknown [OF example_globals_url(3)]])
  have fetched: "truthy (get_json example_http (''http://h:61208/api/4'' @ ''/system''))"
    by (simp add: get_json_def example_http_def)
  have "get_system_info example_globals example_http None = Inl KeyError"
    using fetched
    by (simp add: get_system_info_def bind_e_def catch_ValueError_def servers_item_def
        make_glances_request_resolved [OF example_globals_url(1)])
  then show ?thesis
    by (simp add: get_cpu_info_def get_system_info_def unresolved bind_e_def catch_ValueError_def)
qed

section \<open>Uptime\<close>

text \<open>
  C9, as the code has it. For a payload of \<open>n\<close> seconds with \<open>n\<close> not 0, \<open>get_uptime\<close>
  renders days = n div 86400, hours = (n mod 86400) div 3600 and minutes =
  (n mod 3600) div 60, by integer division without rounding; 90000 seconds render as
  1 day, 1 hour, 0 minutes.
\<close>

theorem get_uptime_decomposition:
  assumes "get_server_url g server_id = Inr base"
    and "get_json http_get (base @ ''/uptime'') = JInt n"
    and "n \<noteq> 0"
  shows "get_uptime g http_get server_id
       = Inr (up_t0 @ string_of_int (n div 86400) @ up_days
              @ string_of_int (n mod 86400 div 3600) @ up_hours
              @ string_of_int (n mod 3600 div 60) @ up_minutes)
     \<and> (n = 90000 \<longrightarrow> get_uptime g http_get server_id = Inr up_example_90000)"
proof -
  have general: "get_uptime g http_get server_id
       = Inr (up_t0 @ string_of_int (n div 86400) @ up_days
              @ string_of_int (n mod 86400 div 3600) @ up_hours
              @ string_of_int (n mod 3600 div 60) @ up_minutes)"
    using assms
    by (simp add: get_uptime_def make_glances_request_resolved bind_e_def py_int_def Let_def)
  have "up_t0 @ string_of_int (90000 div 86400) @ up_days
          @ string_of_int (90000 mod 86400 div 3600) @ up_hours
          @ string_of_int (90000 mod 3600 div 60) @ up_minutes = up_example_90000"
    by (simp add: number_simps up_t0_def up_days_def up_hours_def up_minutes_def
        up_example_90000_def)
  with general show ?thesis by auto
qed

theorem get_uptime_decomposition_witness:
  "get_server_url example_globals None = Inr ''http://h:61208/api/4''
   \<and> get_json example_http (''http://h:61208/api/4'' @ ''/uptime'') = JInt 90000
   \<and> (90000::int) \<noteq> 0
   \<and> get_uptime example_globals example_http None = Inr up_example_90000"
proof -
  have h: "get_json example_http (''http://h:61208/api/4'' @ ''/uptime'') = JInt 90000"
    by (simp add: get_json_def example_http_def)
  have z: "(90000::int) \<noteq> 0" by simp
  have "get_uptime example_globals example_http None = Inr up_example_90000"
    using get_uptime_decomposition [OF example_globals_url(1) h z, THEN conjunct2] by simp
  with h show ?thesis
    by (simp add: example_globals_url)
qed

text \<open>
  C9, as stated, fails for a payload of 0 seconds: the handler takes the payload for
  absent and does not render 0 days, 0 hours, 0 minutes.
\<close>

theorem get_uptime_zero_counterexample:
  "get_json http_empty (''http://h:61208/api/4'' @ ''/uptime'') = JInt 0
   \<and> get_uptime example_globals http_empty None
       \<noteq> Inr (up_t0 @ string_of_int (0 div 86400) @ up_days
              @ string_of_int (0 mod 86400 div 3600) @ up_hours
              @ string_of_int (0 mod 3600 div 60) @ up_minutes)"
proof -
  have "get_uptime example_globals http_empty None = Inr na_uptime"
    by (rule falsy_uptime [OF example_globals_url(1) http_empty_falsy])
  then show ?thesis
    by (simp add: get_json_def http_empty_def na_uptime_def up_t0_def)
qed

section \<open>Aggregate report\<close>

lemma get_all_stats_concat:
  assumes reg: "map_of (SERVERS g) sid = Some srv"
    and data: "truthy (get_json http_get (srv_url srv @ ''/all''))"
    and subs: "get_system_info g http_get (Some sid) = Inr s1"
      "get_cpu_info g http_get (Some sid) = Inr s2"
      "get_memory_info g http_get (Some sid) = Inr s3"
      "get_disk_io_info g http_get (Some sid) = Inr s4"
      "get_network_info g http_get (Some sid) = Inr s5"
      "get_uptime g http_get (Some sid) = Inr s6"
  shows "get_all_stats g http_get (Some sid)
     = Inr (hdr_server_a @ srv_name srv @ hdr_all_b
            @ s1 @ txt_nl @ s2 @ txt_nl @ s3 @ txt_nl @ s4 @ txt_nl @ s5 @ txt_nl @ s6)"
  using reg data
  by (simp add: get_all_stats_def make_glances_request_resolved [OF get_server_url_known [OF reg]]
      bind_e_def servers_item_def lit_def catch_ValueError_def subs)

lemma example_servers_item:
  "servers_item example_globals (Some ''server1'')
     = Inr \<lparr>srv_name = ''web'', srv_url = ''http://h:61208/api/4'', srv_description = ''test box''\<rparr>"
  by (simp add: servers_item_def example_globals_def initial_globals_def)

lemmas field_simps_py =
  lit_def fld_def fld_div2f_def py_get_def dict_get_def py_str_def bind_e_def num_of_def

lemmas zero_2f = small_values(2)

lemma example_outputs:
  "get_system_info example_globals example_http (Some ''server1'')
     = Inr (hdr_server_a @ ''web'' @ hdr_system_b @ sys_t0 @ ''Unknown'' @ sys_t1 @ ''Unknown'' @ '' ''
            @ txt_cpu_usage @ ''0'' @ txt_pct_mem_usage @ ''0'' @ sys_t4 @ ''0'' @ txt_pct_nl)"
  "get_cpu_info example_globals example_http (Some ''server1'')
     = Inr (cpu_t0 @ ''0'' @ cpu_t1 @ ''0'' @ cpu_t2 @ ''0'' @ cpu_t3 @ ''0'' @ cpu_t4 @ ''0'' @ txt_pct_nl)"
  "get_memory_info example_globals example_http (Some ''server1'')
     = Inr (mem_t0 @ ''0.00'' @ txt_mb_used @ ''0.00'' @ txt_mb_free @ ''0.00'' @ txt_mb_pct @ ''0''
            @ txt_pct_nl)"
  "get_disk_io_info example_globals example_http (Some ''server1'')
     = Inr (disk_head @ txt_lbl_device @ ''sda'' @ disk_t1 @ ''0.00'' @ disk_t2 @ ''0.00'' @ txt_mb_nl)"
  "get_network_info example_globals example_http (Some ''server1'')
     = Inr (net_head @ net_t0 @ ''unknown'' @ net_t1 @ ''0.00'' @ net_t2 @ ''0.00 B'' @ net_t3
            @ ''0.00 B'' @ net_t4 @ ''0.00 B'' @ net_t5 @ ''0.00 B'' @ txt_nl)"
  "get_uptime example_globals example_http (Some ''server1'') = Inr up_example_90000"
proof -
  note fetch = make_glances_request_resolved [OF example_globals_url(2)]
  show "get_system_info example_globals example_http (Some ''server1'')
     = Inr (hdr_server_a @ ''web'' @ hdr_system_b @ sys_t0 @ ''Unknown'' @ sys_t1 @ ''Unknown'' @ '' ''
            @ txt_cpu_usage @ ''0'' @ txt_pct_mem_usage @ ''0'' @ sys_t4 @ ''0'' @ txt_pct_nl)"
    by (simp add: get_system_info_def fetch get_json_def example_http_def example_servers_item
        format_system_info_def field_simps_py catch_ValueError_def small_values)
  show "get_cpu_info example_globals example_http (Some ''server1'')
     = Inr (cpu_t0 @ ''0'' @ cpu_t1 @ ''0'' @ cpu_t2 @ ''0'' @ cpu_t3 @ ''0'' @ cpu_t4 @ ''0'' @ txt_pct_nl)"
    by (simp add: get_cpu_info_def fetch get_json_def example_http_def format_cpu_info_def
        field_simps_py small_values)
  show "get_memory_info example_globals example_http (Some ''server1'')
     = Inr (mem_t0 @ ''0.00'' @ txt_mb_used @ ''0.00'' @ txt_mb_free @ ''0.00'' @ txt_mb_pct @ ''0''
            @ txt_pct_nl)"
    by (simp add: get_memory_info_def fetch get_json_def example_http_def format_memory_info_def
        field_simps_py small_values)
  show "get_disk_io_info example_globals example_http (Some ''server1'')
     = Inr (disk_head @ txt_lbl_device @ ''sda'' @ disk_t1 @ ''0.00'' @ disk_t2 @ ''0.00'' @ txt_mb_nl)"
    by (simp add: get_disk_io_info_def fetch get_json_def example_http_def format_disk_info_def
        py_items_def field_simps_py zero_2f)
  show "get_network_info example_globals example_http (Some ''server1'')
     = Inr (net_head @ net_t0 @ ''unknown'' @ net_t1 @ ''0.00'' @ net_t2 @ ''0.00 B'' @ net_t3
            @ ''0.00 B'' @ net_t4 @ ''0.00 B'' @ net_t5 @ ''0.00 B'' @ txt_nl)"
    by (simp add: get_network_info_def fetch get_json_def example_http_def py_iter_def
        format_bytes_rate_def format_bytes_def field_simps_py zero_2f)
  have "get_json example_http (''http://h:61208/api/4'' @ ''/uptime'') = JInt 90000"
    by (simp add: get_json_def example_http_def)
  then show "get_uptime example_globals example_http (Some ''server1'') = Inr up_example_90000"
    by (simp add: get_uptime_def fetch py_int_def Let_def number_simps
        up_t0_def up_days_def up_hours_def up_minutes_def up_example_90000_def)
qed

lemma example_registered:
  "map_of (SERVERS example_globals) ''server1''
     = Some \<lparr>srv_name = ''web'', srv_url = ''http://h:61208/api/4'', srv_description = ''test box''\<rparr>"
  by (simp add: example_globals_def initial_globals_def)

lemma example_all_truthy:
  "truthy (get_json example_http
     (srv_url \<lparr>srv_name = ''web'', srv_url = ''http://h:61208/api/4'', srv_description = ''test box''\<rparr>
      @ ''/all''))"
  by (simp add: get_json_def example_http_def)

text \<open>
  C5, as the code has it. For a registered server id, when the request for \<open>all\<close>
  returns data and the six sub-handlers return their outputs, \<open>get_all_stats\<close> returns
  a header line that names the server, followed by the outputs of the system, CPU,
  memory, disk I/O, network and uptime sub-handlers in that order, each output after
  the first preceded by a newline.
\<close>

theorem get_all_stats_concatenation:
  assumes "map_of (SERVERS g) sid = Some srv"
    and "truthy (get_json http_get (srv_url srv @ ''/all''))"
    and "get_system_info g http_get (Some sid) = Inr s1"
    and "get_cpu_info g http_get (Some sid) = Inr s2"
    and "get_memory_info g http_get (Some sid) = Inr s3"
    and "get_disk_io_info g http_get (Some sid) = Inr s4"
    and "get_network_info g http_get (Some sid) = Inr s5"
    and "get_uptime g http_get (Some sid) = Inr s6"
  shows "get_all_stats g http_get (Some sid)
     = Inr (hdr_server_a @ srv_name srv @ hdr_all_b
            @ s1 @ txt_nl @ s2 @ txt_nl @ s3 @ txt_nl @ s4 @ txt_nl @ s5 @ txt_nl @ s6)"
  using assms by (rule get_all_stats_concat)

theorem get_all_stats_concatenation_witness:
  "map_of (SERVERS example_globals) ''server1''
     = Some \<lparr>srv_name = ''web'', srv_url = ''http://h:61208/api/4'', srv_description = ''test box''\<rparr>
   \<and> truthy (get_json example_http (''http://h:61208/api/4'' @ ''/all''))
   \<and> get_cpu_info example_globals example_http (Some ''server1'')
       = Inr (cpu_t0 @ ''0'' @ cpu_t1 @ ''0'' @ cpu_t2 @ ''0'' @ cpu_t3 @ ''0'' @ cpu_t4 @ ''0'' @ txt_pct_nl)
   \<and> get_uptime example_globals example_http (Some ''server1'') = Inr up_example_90000
   \<and> get_all_stats example_globals example_http (Some ''server1'')
       = Inr (hdr_server_a @ ''web'' @ hdr_all_b
          @ (hdr_server_a @ ''web'' @ hdr_system_b @ sys_t0 @ ''Unknown'' @ sys_t1 @ ''Unknown'' @ '' ''
             @ txt_cpu_usage @ ''0'' @ txt_pct_mem_usage @ ''0'' @ sys_t4 @ ''0'' @ txt_pct_nl)
          @ txt_nl
          @ (cpu_t0 @ ''0'' @ cpu_t1 @ ''0'' @ cpu_t2 @ ''0'' @ cpu_t3 @ ''0'' @ cpu_t4 @ ''0'' @ txt_pct_nl)
          @ txt_nl
          @ (mem_t0 @ ''0.00'' @ txt_mb_used @ ''0.00'' @ txt_mb_free @ ''0.00'' @ txt_mb_pct @ ''0''
             @ txt_pct_nl)
          @ txt_nl
          @ (disk_head @ txt_lbl_device @ ''sda'' @ disk_t1 @ ''0.00'' @ disk_t2 @ ''0.00'' @ txt_mb_nl)
          @ txt_nl
          @ (net_head @ net_t0 @ ''unknown'' @ net_t1 @ ''0.00'' @ net_t2 @ ''0.00 B'' @ net_t3
             @ ''0.00 B'' @ net_t4 @ ''0.00 B'' @ net_t5 @ ''0.00 B'' @ txt_nl)
          @ txt_nl @ up_example_90000)"
  using get_all_stats_concatenation [OF example_registered example_all_truthy example_outputs]
    example_registered example_all_truthy example_outputs(2,6)
  by simp

text \<open>
  C5, as stated, fails: the text returned is not the concatenation of the six outputs
  alone, it starts with the header line.
\<close>

theorem get_all_stats_header_counterexample:
  "get_all_stats example_globals example_http (Some ''server1'')
     \<noteq> render
         [get_system_info example_globals example_http (Some ''server1''), lit txt_nl,
          get_cpu_info example_globals example_http (Some ''server1''), lit txt_nl,
          get_memory_info example_globals example_http (Some ''server1''), lit txt_nl,
          get_disk_io_info example_globals example_http (Some ''server1''), lit txt_nl,
          get_network_info example_globals example_http (Some ''server1''), lit txt_nl,
          get_uptime example_globals example_http (Some ''server1'')]"
proof
  assume eq: "get_all_stats example_globals example_http (Some ''server1'')
     = render
         [get_system_info example_globals example_http (Some ''server1''), lit txt_nl,
          get_cpu_info example_globals example_http (Some ''server1''), lit txt_nl,
          get_memory_info example_globals example_http (Some ''server1''), lit txt_nl,
          get_disk_io_info example_globals example_http (Some ''server1''), lit txt_nl,
          get_network_info example_globals example_http (Some ''server1''), lit txt_nl,
          get_uptime example_globals example_http (Some ''server1'')]"
  note whole = get_all_stats_concat [OF example_registered example_all_truthy example_outputs]
  from eq have "projr (get_all_stats example_globals example_http (Some ''server1''))
      = projr (render
         [get_system_info example_globals example_http (Some ''server1''), lit txt_nl,
          get_cpu_info example_globals example_http (Some ''server1''), lit txt_nl,
          get_memory_info example_globals example_http (Some ''server1''), lit txt_nl,
          get_disk_io_info example_globals example_http (Some ''server1''), lit txt_nl,
          get_network_info example_globals example_http (Some ''server1''), lit txt_nl,
          get_uptime example_globals example_http (Some ''server1'')])"
    by simp
  then have "length (projr (get_all_stats example_globals example_http (Some ''server1'')))
      = length (projr (render
         [get_system_info example_globals example_http (Some ''server1''), lit txt_nl,
          get_cpu_info example_globals example_http (Some ''server1''), lit txt_nl,
          get_memory_info example_globals example_http (Some ''server1''), lit txt_nl,
          get_disk_io_info example_globals example_http (Some ''server1''), lit txt_nl,
          get_network_info example_globals example_http (Some ''server1''), lit txt_nl,
          get_uptime example_globals example_http (Some ''server1'')]))"
    by simp
  then show False
    by (simp add: whole example_outputs lit_def hdr_server_a_def)
qed

section \<open>Byte counts in the reports\<close>








section \<open>Formatters on well-shaped and ill-shaped payloads\<close>










lemma bind_e_simps [simp]: "bind_e (Inr x) f = f x" "bind_e (Inl e) f = Inl e"
  by (simp_all add: bind_e_def)





















end
